theory Spec2Isabelle
  imports Main "HOL-Library.Sublist"
begin

section \<open>JavaScript values used by the tool-call engine\<close>

text \<open>
  Strings are character lists; text outside ASCII stands in UTF-8, as the arrow of the
  diagnostic message does below, which leaves \<open>includes\<close>, \<open>replace\<close> and
  concatenation what they are on well-formed text. \<open>String.prototype.toLowerCase\<close> is
  Unicode-aware; it is a built-in of the language and the functions that use it take it
  as a parameter.
\<close>

text \<open>\<open>s.replace(/[_-]/g, "")\<close>\<close>

definition strip_separators :: "string \<Rightarrow> string" where
  "strip_separators s = filter (\<lambda>c. c \<noteq> CHR ''_'' \<and> c \<noteq> CHR ''-'') s"

text \<open>\<open>s.includes(t)\<close>: \<open>t\<close> occurs in \<open>s\<close> as a contiguous run of characters.\<close>

fun str_includes :: "string \<Rightarrow> string \<Rightarrow> bool" where
  "str_includes [] t = (t = [])"
| "str_includes (c # s) t = (prefix t (c # s) \<or> str_includes s t)"

text \<open>\<open>xs.join(sep)\<close>\<close>

fun join :: "string \<Rightarrow> string list \<Rightarrow> string" where
  "join sep [] = []"
| "join sep [x] = x"
| "join sep (x # y # ys) = x @ sep @ join sep (y # ys)"

text \<open>\<open>String(n)\<close> for a non-negative integer.\<close>

definition digit_char :: "nat \<Rightarrow> char" where
  "digit_char d = ''0123456789'' ! d"

fun String_of_nat :: "nat \<Rightarrow> string" where
  "String_of_nat n =
     (if n < 10 then [digit_char n]
      else String_of_nat (n div 10) @ [digit_char (n mod 10)])"

declare String_of_nat.simps [simp del]

text \<open>
  A decoded JSON value. Numbers are opaque to the engine (it only passes them on), so
  an integer stands for them.
\<close>

datatype json =
    JNull
  | JBool bool
  | JNum int
  | JStr string
  | JArr "json list"
  | JObj "(string \<times> json) list"

text \<open>
  An object is the list of its own enumerable properties in enumeration order, as
  \<open>Object.entries\<close> gives them: the keys that are array indices (canonical decimal
  numbers below \<open>2^32 - 1\<close>) first, in ascending order, then the other keys in the order
  in which they were added.
\<close>

type_synonym 'v object = "(string \<times> 'v) list"

definition digit_value :: "char \<Rightarrow> nat" where
  "digit_value c = length (takeWhile (\<lambda>d. d \<noteq> c) ''0123456789'')"

definition nat_of_decimal :: "string \<Rightarrow> nat" where
  "nat_of_decimal k = foldl (\<lambda>n c. 10 * n + digit_value c) 0 k"

definition array_index :: "string \<Rightarrow> nat option" where
  "array_index k =
     (if k \<noteq> [] \<and> list_all (\<lambda>c. c \<in> set ''0123456789'') k \<and>
         (k = ''0'' \<or> hd k \<noteq> CHR ''0'') \<and> nat_of_decimal k < 4294967295
      then Some (nat_of_decimal k) else None)"

text \<open>A new array index goes before the first key that is no smaller index.\<close>

fun insert_index :: "nat \<Rightarrow> string \<Rightarrow> 'v \<Rightarrow> 'v object \<Rightarrow> 'v object" where
  "insert_index n k v [] = [(k, v)]"
| "insert_index n k v ((k', v') # kvs) =
     (case array_index k' of
        Some m \<Rightarrow> if m < n then (k', v') # insert_index n k v kvs else (k, v) # (k', v') # kvs
      | None \<Rightarrow> (k, v) # (k', v') # kvs)"

text \<open>
  \<open>obj[k] = v\<close> on an object made by \<open>{}\<close> and assignments: the key \<open>__proto__\<close> is
  the setter inherited from \<open>Object.prototype\<close> and stores no property of the object's
  own; a key the object has keeps its place and takes the value; a new key is added.
\<close>

definition obj_set :: "'v object \<Rightarrow> string \<Rightarrow> 'v \<Rightarrow> 'v object" where
  "obj_set kvs k v =
     (if k = ''__proto__'' then kvs
      else if k \<in> fst ` set kvs then map (\<lambda>(k', v'). if k' = k then (k', v) else (k', v')) kvs
      else case array_index k of
             Some n \<Rightarrow> insert_index n k v kvs
           | None \<Rightarrow> kvs @ [(k, v)])"

text \<open>
  The members that every plain object inherits from \<open>Object.prototype\<close>, each with the
  string it becomes when it is used as a property key (the program runs on Node.js: a
  built-in function prints as \<open>function name() { [native code] }\<close>, and \<open>__proto__\<close>
  reads as the prototype object itself).
\<close>

definition native_function :: "string \<Rightarrow> string" where
  "native_function name = ''function '' @ name @ ''() { [native code] }''"

definition Object_prototype :: "string object" where
  "Object_prototype =
     [(''constructor'', native_function ''Object''),
      (''__defineGetter__'', native_function ''__defineGetter__''),
      (''__defineSetter__'', native_function ''__defineSetter__''),
      (''hasOwnProperty'', native_function ''hasOwnProperty''),
      (''__lookupGetter__'', native_function ''__lookupGetter__''),
      (''__lookupSetter__'', native_function ''__lookupSetter__''),
      (''isPrototypeOf'', native_function ''isPrototypeOf''),
      (''propertyIsEnumerable'', native_function ''propertyIsEnumerable''),
      (''toString'', native_function ''toString''),
      (''valueOf'', native_function ''valueOf''),
      (''__proto__'', ''[object Object]''),
      (''toLocaleString'', native_function ''toLocaleString'')]"


definition index_keys :: "nat \<Rightarrow> string list" where
  "index_keys n = map String_of_nat [0..<n]"

text \<open>
  \<open>Object.entries(v)\<close> on any decoded value: the properties of an object, the indexed
  elements of an array or of a string (one per character, as it is for ASCII text),
  nothing for a number or a boolean, and a \<open>TypeError\<close> (\<open>None\<close>) for \<open>null\<close>.
\<close>

fun Object_entries :: "json \<Rightarrow> json object option" where
  "Object_entries JNull = None"
| "Object_entries (JBool b) = Some []"
| "Object_entries (JNum n) = Some []"
| "Object_entries (JStr s) = Some (zip (index_keys (length s)) (map (\<lambda>c. JStr [c]) s))"
| "Object_entries (JArr xs) = Some (zip (index_keys (length xs)) xs)"
| "Object_entries (JObj kvs) = Some kvs"

definition Object_keys :: "json \<Rightarrow> string list option" where
  "Object_keys v = map_option (map fst) (Object_entries v)"

text \<open>A thrown value: the message of the \<open>Error\<close> and its \<open>cause.code\<close>, if any.\<close>

datatype exn = Exn (message: string) (cause_code: "string option")

definition TypeError :: exn where
  "TypeError = Exn ''Cannot convert undefined or null to object'' None"

section \<open>ToolManager: the catalog entry and the parameter reconciler\<close>

text \<open>
  \<open>OpenAiTool\<close>: \<open>{type: "function", function: {name, description, parameters: {type:
  "object", properties, required}}}\<close>; the two constant \<open>type\<close> fields are left out.
\<close>

record OpenAiTool =
  fn_name :: string
  fn_description :: string
  fn_properties :: "json object"
  fn_required :: "string list"

text \<open>\<open>ToolManager.getToolParameterInfo\<close>: \<open>this.tools.find(t => t.function.name === toolName)\<close>\<close>

definition getToolParameterInfo :: "OpenAiTool list \<Rightarrow> string \<Rightarrow> OpenAiTool option" where
  "getToolParameterInfo tools toolName = find (\<lambda>t. fn_name t = toolName) tools"

definition normalize_name :: "(string \<Rightarrow> string) \<Rightarrow> string \<Rightarrow> string" where
  "normalize_name toLowerCase s = strip_separators (toLowerCase s)"

text \<open>\<open>ToolManager.findMostSimilarParameter\<close>; \<open>None\<close> is \<open>null\<close>.\<close>

fun findMostSimilarParameter ::
  "(string \<Rightarrow> string) \<Rightarrow> string \<Rightarrow> string list \<Rightarrow> string option" where
  "findMostSimilarParameter toLowerCase provided [] = None"
| "findMostSimilarParameter toLowerCase provided (param # expected) =
     (let normalized = normalize_name toLowerCase provided;
          normalizedExpected = normalize_name toLowerCase param
      in if str_includes normalizedExpected normalized \<or> str_includes normalized normalizedExpected
         then Some param
         else findMostSimilarParameter toLowerCase provided expected)"

text \<open>
  The loop of \<open>ToolManager.suggestParameterMapping\<close> over \<open>Object.keys(providedArgs)\<close>.
  \<open>if (mostSimilar)\<close> is false for \<open>null\<close> and for the empty string.
\<close>

fun suggestLoop ::
  "(string \<Rightarrow> string) \<Rightarrow> string list \<Rightarrow> string list \<Rightarrow> string object \<Rightarrow> string object" where
  "suggestLoop toLowerCase expectedParams [] mapping = mapping"
| "suggestLoop toLowerCase expectedParams (providedParam # rest) mapping =
     (if providedParam \<in> set expectedParams
      then suggestLoop toLowerCase expectedParams rest mapping
      else case findMostSimilarParameter toLowerCase providedParam expectedParams of
             None \<Rightarrow> suggestLoop toLowerCase expectedParams rest mapping
           | Some mostSimilar \<Rightarrow>
               if mostSimilar \<noteq> []
               then suggestLoop toLowerCase expectedParams rest
                      (obj_set mapping providedParam mostSimilar)
               else suggestLoop toLowerCase expectedParams rest mapping)"

text \<open>
  \<open>ToolManager.suggestParameterMapping\<close>. An unknown tool gives the empty mapping before
  the arguments are looked at; \<open>Object.keys(null)\<close> throws. The declared parameters are
  \<open>Object.keys\<close> of the schema's properties, in that order.
\<close>

definition suggestParameterMapping ::
  "(string \<Rightarrow> string) \<Rightarrow> OpenAiTool list \<Rightarrow> string \<Rightarrow> json \<Rightarrow> exn + string object" where
  "suggestParameterMapping toLowerCase tools toolName providedArgs =
     (case getToolParameterInfo tools toolName of
        None \<Rightarrow> Inr []
      | Some tool \<Rightarrow>
          (case Object_keys providedArgs of
             None \<Rightarrow> Inl TypeError
           | Some keys \<Rightarrow>
               Inr (suggestLoop toLowerCase (map fst (fn_properties tool)) keys [])))"

section \<open>ChatManager: renaming the arguments\<close>

text \<open>
  The loop of \<open>ChatManager.fixToolArguments\<close> over \<open>Object.entries(args)\<close>.
  \<open>mappings[key] || key\<close> reads the suggestion of the key, or else, \<open>mappings\<close> being a
  plain object, the member of that name inherited from \<open>Object.prototype\<close>; it falls
  back to the key when it finds neither or finds the empty string. What it gives is then
  used as a property key.
\<close>

definition mappedKey :: "string object \<Rightarrow> string \<Rightarrow> string" where
  "mappedKey mappings key =
     (case map_of mappings key of
        Some s \<Rightarrow> if s \<noteq> [] then s else key
      | None \<Rightarrow> (case map_of Object_prototype key of Some member \<Rightarrow> member | None \<Rightarrow> key))"

fun fixLoop :: "string object \<Rightarrow> 'v object \<Rightarrow> 'v object \<Rightarrow> 'v object" where
  "fixLoop mappings [] fixedArgs = fixedArgs"
| "fixLoop mappings ((key, v) # rest) fixedArgs =
     fixLoop mappings rest (obj_set fixedArgs (mappedKey mappings key) v)"

definition fixToolArguments :: "'v object \<Rightarrow> string object \<Rightarrow> 'v object" where
  "fixToolArguments args mappings = fixLoop mappings args []"

text \<open>
  As the batch handler calls it, on whatever the argument decoding returned:
  \<open>Object.entries(null)\<close> throws.
\<close>

definition fixToolArguments_json :: "json \<Rightarrow> string object \<Rightarrow> exn + json" where
  "fixToolArguments_json args mappings =
     (case Object_entries args of
        None \<Rightarrow> Inl TypeError
      | Some entries \<Rightarrow> Inr (JObj (fixToolArguments entries mappings)))"

section \<open>ToolManager: building the catalog\<close>

text \<open>
  A tool as a provider lists it. The interface declares \<open>name\<close> as a string, but
  \<open>convertToOpenaiTools\<close> tests it, so a missing name is \<open>None\<close>.
\<close>

record inputSchema =
  schema_properties :: "json object option"
  schema_required :: "string list option"

record McpTool =
  mcp_name :: "string option"
  mcp_description :: "string option"
  mcp_inputSchema :: "inputSchema option"

text \<open>
  \<open>convertToOpenaiTools\<close>: the filter drops a tool whose name is missing or empty
  (\<open>!tool.name\<close>), the map fills the defaults (\<open>|| ""\<close>, \<open>|| {}\<close>, \<open>|| []\<close>).
\<close>

definition openaiTool :: "string \<Rightarrow> McpTool \<Rightarrow> OpenAiTool" where
  "openaiTool n tool =
     \<lparr>fn_name = n,
      fn_description = (case mcp_description tool of None \<Rightarrow> [] | Some d \<Rightarrow> d),
      fn_properties =
        (case mcp_inputSchema tool of
           None \<Rightarrow> []
         | Some sch \<Rightarrow> (case schema_properties sch of None \<Rightarrow> [] | Some ps \<Rightarrow> ps)),
      fn_required =
        (case mcp_inputSchema tool of
           None \<Rightarrow> []
         | Some sch \<Rightarrow> (case schema_required sch of None \<Rightarrow> [] | Some r \<Rightarrow> r))\<rparr>"

fun convertToOpenaiTools :: "McpTool list \<Rightarrow> OpenAiTool list" where
  "convertToOpenaiTools [] = []"
| "convertToOpenaiTools (tool # rest) =
     (case mcp_name tool of
        None \<Rightarrow> convertToOpenaiTools rest
      | Some n \<Rightarrow>
          if n = [] then convertToOpenaiTools rest
          else openaiTool n tool # convertToOpenaiTools rest)"

text \<open>
  What \<open>client.listTools()\<close> does: it throws, or its response has no \<open>tools\<close>
  (\<open>|| []\<close>), or \<open>tools\<close> is not an array, or it is an array whose elements are objects
  or not.
\<close>

datatype raw_tool = NonObject | ToolObject McpTool

datatype listTools_result =
    ListThrows exn
  | ToolsMissing
  | ToolsNotArray
  | ToolsArray "raw_tool list"

fun every_object :: "raw_tool list \<Rightarrow> McpTool list option" where
  "every_object [] = Some []"
| "every_object (NonObject # rest) = None"
| "every_object (ToolObject tool # rest) = map_option ((#) tool) (every_object rest)"

text \<open>\<open>ToolManager.fetchTools\<close>; \<open>None\<close> is \<open>null\<close>.\<close>

fun fetchTools :: "listTools_result \<Rightarrow> McpTool list option" where
  "fetchTools (ListThrows e) = None"
| "fetchTools ToolsMissing = Some []"
| "fetchTools ToolsNotArray = None"
| "fetchTools (ToolsArray ts) = every_object ts"

text \<open>
  A client is known by its server name (the key of \<open>createMcpClients\<close>'s map). The
  dispatch table \<open>toolMap\<close> is keyed by whatever \<open>tool.name\<close> is, a missing name
  included.
\<close>

type_synonym client = string

record ToolManager =
  tm_toolMap :: "string option \<rightharpoonup> client"
  tm_clients :: "client list"
  tm_tools :: "OpenAiTool list"

definition new_ToolManager :: ToolManager where
  "new_ToolManager = \<lparr>tm_toolMap = Map.empty, tm_clients = [], tm_tools = []\<rparr>"

text \<open>\<open>for (const tool of mcpTools) this.toolMap.set(tool.name, client)\<close>\<close>

fun registerTools ::
  "(string option \<rightharpoonup> client) \<Rightarrow> client \<Rightarrow> McpTool list \<Rightarrow> (string option \<rightharpoonup> client)" where
  "registerTools m c [] = m"
| "registerTools m c (tool # rest) = registerTools (m(mcp_name tool \<mapsto> c)) c rest"

text \<open>The loop of \<open>ToolManager.initialize\<close> over the clients, in the map's order.\<close>

fun initializeLoop ::
  "(client \<Rightarrow> listTools_result) \<Rightarrow> client list \<Rightarrow>
   (string option \<rightharpoonup> client) \<times> McpTool list \<Rightarrow> (string option \<rightharpoonup> client) \<times> McpTool list" where
  "initializeLoop listTools [] (m, allMcpTools) = (m, allMcpTools)"
| "initializeLoop listTools (c # rest) (m, allMcpTools) =
     (case fetchTools (listTools c) of
        None \<Rightarrow> initializeLoop listTools rest (m, allMcpTools)
      | Some mcpTools \<Rightarrow>
          initializeLoop listTools rest (registerTools m c mcpTools, allMcpTools @ mcpTools))"

text \<open>
  \<open>ToolManager.initialize\<close>, given the clients that \<open>createMcpClients\<close> connected.
\<close>

text \<open>The tools a client contributes: those that \<open>fetchTools\<close> accepted, if any.\<close>

definition offeredTools :: "(client \<Rightarrow> listTools_result) \<Rightarrow> client \<Rightarrow> McpTool list" where
  "offeredTools listTools c = (case fetchTools (listTools c) of None \<Rightarrow> [] | Some ts \<Rightarrow> ts)"

text \<open>
  Every \<open>this.toolMap.set(tool.name, client)\<close> of an initialization, in the order in
  which they are made.
\<close>

definition registrations ::
  "(client \<Rightarrow> listTools_result) \<Rightarrow> client list \<Rightarrow> (string option \<times> client) list" where
  "registrations lt cs =
     concat (map (\<lambda>c. map (\<lambda>tool. (mcp_name tool, c)) (offeredTools lt c)) cs)"

definition initialize ::
  "(client \<Rightarrow> listTools_result) \<Rightarrow> client list \<Rightarrow> ToolManager \<Rightarrow> exn + ToolManager" where
  "initialize listTools newClients T =
     (if newClients = [] then Inl (Exn ''No MCP clients loaded.'' None)
      else case initializeLoop listTools newClients (tm_toolMap T, []) of
             (m, allMcpTools) \<Rightarrow>
               Inr (T\<lparr>tm_clients := newClients, tm_toolMap := m,
                       tm_tools := convertToOpenaiTools allMcpTools\<rparr>))"

section \<open>ToolManager: executing a tool\<close>

text \<open>
  A content block \<open>{type, text?}\<close>, and the \<open>content\<close> of a result: an array of blocks,
  nothing, or some other (truthy) payload, of which only \<open>String(payload)\<close> is read.
\<close>

datatype block = Block (block_type: string) (block_text: "string option")

datatype content = ContentArray "block list" | ContentMissing | ContentOther string

record CallToolResult =
  result_content :: content

definition newline :: string where
  "newline = [CHR 0x0A]"

text \<open>\<open>formatToolResponse\<close> (toolTypes.ts)\<close>

definition formatToolResponse :: "content \<Rightarrow> string" where
  "formatToolResponse responseContent =
     (case responseContent of
        ContentArray items \<Rightarrow>
          join newline
            (map (\<lambda>item. case block_text item of
                            None \<Rightarrow> ''No content''
                          | Some t \<Rightarrow> if t = [] then ''No content'' else t)
               (filter (\<lambda>item. block_type item = ''text'') items))
      | ContentMissing \<Rightarrow> ''undefined''
      | ContentOther s \<Rightarrow> s)"

text \<open>
  An awaited call settles at some time (in milliseconds after it was made) with a value
  or with a thrown error, or it never settles.
\<close>

datatype 'a promise = Fulfilled nat 'a | Rejected nat exn | Pending

text \<open>The promise has settled \<open>ms\<close> milliseconds after the call.\<close>

definition settled_by :: "'a promise \<Rightarrow> nat \<Rightarrow> bool" where
  "settled_by p ms =
     (case p of Fulfilled t r \<Rightarrow> t \<le> ms | Rejected t e \<Rightarrow> t \<le> ms | Pending \<Rightarrow> False)"

text \<open>
  A tool call as the model issues it, \<open>{function: {name, arguments}}\<close>, and the
  \<open>ToolCall\<close> of toolTypes.ts, whose \<open>function\<close> \<open>parseToolCall\<close> tests.
\<close>

record OllamaToolCall =
  tc_name :: string
  tc_arguments :: json

record ToolCall =
  call_id :: "string option"
  call_function :: "OllamaToolCall option"

text \<open>\<open>OllamaMessage\<close> (its optional \<open>name\<close> is never read or written).\<close>

datatype role = System | User | Assistant | Tool

record message =
  msg_role :: role
  msg_content :: string
  msg_tool_calls :: "OllamaToolCall list option"
  msg_tool_call_id :: "string option"

text \<open>
  The world outside the engine: the built-ins of the language, the providers and the
  model. A
  provider's answer and the model's answer may change from call to call, so each takes
  the number of calls made before it; the model is sent the transcript (its name and the
  catalog are fixed once the session is initialized). Which of two promises that settle
  in the same millisecond \<open>Promise.race\<close> sees first is the event loop's choice.
  \<open>String(n)\<close> of a whole number above \<open>2^53 - 1\<close> is the shortest numeral of its
  double, also left to the environment.
\<close>

record env =
  JSON_parse :: "string \<Rightarrow> exn + json"
  JSON_stringify :: "json \<Rightarrow> string"
  String_toLowerCase :: "string \<Rightarrow> string"
  String_of_unsafe_integer :: "nat \<Rightarrow> string"
  client_callTool :: "client \<Rightarrow> nat \<Rightarrow> string \<Rightarrow> json \<Rightarrow> CallToolResult promise"
  timer_first_on_tie :: bool
  ollama_chat :: "nat \<Rightarrow> message list \<Rightarrow> exn + message"

text \<open>\<open>String(n)\<close> for a time-out \<open>n\<close>, a whole number of milliseconds.\<close>

definition Number_toString :: "env \<Rightarrow> nat \<Rightarrow> string" where
  "Number_toString E n =
     (if n \<le> 9007199254740991 then String_of_nat n else String_of_unsafe_integer E n)"

definition timeoutError :: "env \<Rightarrow> nat \<Rightarrow> exn" where
  "timeoutError E timeoutMs =
     Exn (''Tool call timed out after '' @ Number_toString E timeoutMs @ ''ms'') None"

text \<open>The argument normalisation at the head of \<open>callToolWithTimeout\<close>.\<close>

definition parsedArgs :: "env \<Rightarrow> json \<Rightarrow> json" where
  "parsedArgs E args =
     (case args of
        JStr s \<Rightarrow> (case JSON_parse E s of Inr v \<Rightarrow> v | Inl e \<Rightarrow> JObj [(''value'', JStr s)])
      | JObj kvs \<Rightarrow> args
      | JArr xs \<Rightarrow> args
      | _ \<Rightarrow> JObj [])"


text \<open>
  When the timer of \<open>setTimeout(f, timeoutMs)\<close> is due: Node.js takes a delay below 1 or
  above \<open>2^31 - 1\<close> for 1.
\<close>

definition setTimeout_delay :: "nat \<Rightarrow> nat" where
  "setTimeout_delay timeoutMs = (if timeoutMs < 1 \<or> 2147483647 < timeoutMs then 1 else timeoutMs)"

text \<open>
  \<open>Promise.race([toolCallPromise, timeoutPromise])\<close>: the timer rejects when it is due.
\<close>

definition race :: "env \<Rightarrow> 'a promise \<Rightarrow> nat \<Rightarrow> 'a promise" where
  "race E toolCallPromise timeoutMs =
     (let due = setTimeout_delay timeoutMs; timer_first = timer_first_on_tie E
      in case toolCallPromise of
           Pending \<Rightarrow> Rejected due (timeoutError E timeoutMs)
         | Fulfilled t r \<Rightarrow>
             if t < due \<or> (t = due \<and> \<not> timer_first) then Fulfilled t r
             else Rejected due (timeoutError E timeoutMs)
         | Rejected t e \<Rightarrow>
             if t < due \<or> (t = due \<and> \<not> timer_first) then Rejected t e
             else Rejected due (timeoutError E timeoutMs))"

text \<open>The default of the parameter \<open>timeoutMs = 30000\<close>.\<close>

definition timeoutMs_of :: "nat option \<Rightarrow> nat" where
  "timeoutMs_of timeoutMs_opt = (case timeoutMs_opt of None \<Rightarrow> 30000 | Some ms \<Rightarrow> ms)"

text \<open>
  \<open>ToolManager.callToolWithTimeout\<close>; \<open>None\<close> for \<open>timeoutMs\<close> takes the default. The
  number \<open>i\<close> is the count of provider calls made before this one.
\<close>

definition callToolWithTimeout ::
  "env \<Rightarrow> client \<Rightarrow> nat \<Rightarrow> string \<Rightarrow> json \<Rightarrow> nat option \<Rightarrow> CallToolResult promise" where
  "callToolWithTimeout E c i name args timeoutMs_opt =
     (let timeoutMs = timeoutMs_of timeoutMs_opt;
          toolCallPromise = client_callTool E c i name (parsedArgs E args)
      in case race E toolCallPromise timeoutMs of
           Fulfilled t result \<Rightarrow> Fulfilled t result
         | Rejected t error \<Rightarrow> Rejected t (Exn (''Tool call failed: '' @ message error) None)
         | Pending \<Rightarrow> Pending)"

text \<open>\<open>ToolManager.parseToolCall\<close>: a decoding error is logged and thrown again.\<close>

definition parseToolCall :: "env \<Rightarrow> ToolCall \<Rightarrow> exn + string \<times> json" where
  "parseToolCall E toolCall =
     (case call_function toolCall of
        None \<Rightarrow> Inl (Exn ''Invalid tool call format provided.'' None)
      | Some f \<Rightarrow>
          if tc_name f = [] then Inl (Exn ''Invalid tool call format provided.'' None)
          else (case tc_arguments f of
                  JStr rawArguments \<Rightarrow>
                    (case JSON_parse E rawArguments of
                       Inl error \<Rightarrow> Inl error
                     | Inr toolArgs \<Rightarrow> Inr (tc_name f, toolArgs))
                | rawArguments \<Rightarrow> Inr (tc_name f, rawArguments)))"

definition quote :: "string \<Rightarrow> string" where
  "quote s = [CHR 0x27] @ s @ [CHR 0x27]"

text \<open>\<open>ToolManager.executeToolCall\<close>; \<open>result?.content || []\<close>.\<close>

definition executeToolCall ::
  "env \<Rightarrow> ToolManager \<Rightarrow> nat \<Rightarrow> ToolCall \<Rightarrow> string promise" where
  "executeToolCall E T i toolCall =
     (case parseToolCall E toolCall of
        Inl error \<Rightarrow> Rejected 0 error
      | Inr (name, args) \<Rightarrow>
          (case tm_toolMap T (Some name) of
             None \<Rightarrow> Rejected 0 (Exn (''Tool '' @ quote name @ '' not found'') None)
           | Some c \<Rightarrow>
               (case callToolWithTimeout E c i name args None of
                  Fulfilled t result \<Rightarrow>
                    Fulfilled t
                      (formatToolResponse
                         (case result_content result of
                            ContentMissing \<Rightarrow> ContentArray []
                          | cont \<Rightarrow> cont))
                | Rejected t error \<Rightarrow> Rejected t error
                | Pending \<Rightarrow> Pending)))"

text \<open>
  \<open>ToolManager.callTool\<close>, the executor of the session; \<open>None\<close> is \<open>undefined\<close>. (What
  the ToolManager writes to the console is not modelled.)
\<close>

definition callTool ::
  "env \<Rightarrow> ToolManager \<Rightarrow> nat \<Rightarrow> string \<Rightarrow> json \<Rightarrow> CallToolResult option promise" where
  "callTool E T i toolName args =
     (case tm_toolMap T (Some toolName) of
        None \<Rightarrow> Fulfilled 0 None
      | Some clientForTool \<Rightarrow>
          (case client_callTool E clientForTool i toolName args of
             Fulfilled t result \<Rightarrow> Fulfilled t (Some result)
           | Rejected t error \<Rightarrow> Fulfilled t None
           | Pending \<Rightarrow> Pending))"

section \<open>ChatManager: the session\<close>

text \<open>
  The session's state: the transcript, how many model requests and how many
  \<open>callTool\<close> requests were made so far, and the lines that \<open>processUserInput\<close> and
  \<open>handleToolCalls\<close> wrote to the console.
\<close>

record state =
  messages :: "message list"
  model_calls :: nat
  tool_requests :: nat
  console :: "string list"

definition push :: "message \<Rightarrow> state \<Rightarrow> state" where
  "push m st = st\<lparr>messages := messages st @ [m]\<rparr>"

definition pop :: "state \<Rightarrow> state" where
  "pop st = st\<lparr>messages := butlast (messages st)\<rparr>"

definition log :: "string \<Rightarrow> state \<Rightarrow> state" where
  "log line st = st\<lparr>console := console st @ [line]\<rparr>"

text \<open>\<open>await this.ollama.chat({model, messages: this.messages, tools})\<close>\<close>

definition chat :: "env \<Rightarrow> state \<Rightarrow> (exn + message) \<times> state" where
  "chat E st =
     (ollama_chat E (model_calls st) (messages st), st\<lparr>model_calls := Suc (model_calls st)\<rparr>)"

text \<open>\<open>ChatManager.parseToolArguments\<close>\<close>

definition parseToolArguments :: "env \<Rightarrow> json \<Rightarrow> json" where
  "parseToolArguments E args =
     (case args of
        JStr s \<Rightarrow> (case JSON_parse E s of Inr v \<Rightarrow> v | Inl e \<Rightarrow> JObj [(''value'', JStr s)])
      | _ \<Rightarrow> args)"

text \<open>
  The test at the head of the soft-failure branch: \<open>Array.isArray(resultContent) &&
  resultContent[0]?.type === "text" && resultContent[0]?.text?.includes("Error")\<close>. It
  gives the text of the first block when it holds.
\<close>

fun softFailureText :: "content \<Rightarrow> string option" where
  "softFailureText (ContentArray (Block ty (Some text) # rest)) =
     (if ty = ''text'' \<and> str_includes text ''Error'' then Some text else None)"
| "softFailureText _ = None"

definition arrow :: string where
  "arrow = [CHR 0xE2, CHR 0x86, CHR 0x92]"

text \<open>\<open>ChatManager.createDetailedErrorMessage\<close> (the arrow is U+2192, here in UTF-8).\<close>

definition createDetailedErrorMessage ::
  "string \<Rightarrow> string \<Rightarrow> OpenAiTool option \<Rightarrow> json \<Rightarrow> string object \<Rightarrow> string" where
  "createDetailedErrorMessage toolName errorText toolInfo providedArgs suggestedMappings =
     ''Error using tool '' @ toolName @ '':'' @ newline @ errorText @ newline @ newline @
     (case toolInfo of
        None \<Rightarrow> []
      | Some tool \<Rightarrow>
          ''Expected parameters:'' @ newline @
          ''Required: '' @ join '', '' (fn_required tool) @ newline @
          ''Available: '' @ join '', '' (map fst (fn_properties tool)) @ newline @ newline @
          (if suggestedMappings \<noteq> []
           then ''Suggested parameter mappings:'' @ newline @
                concat (map (\<lambda>(provided, suggested).
                               ''- '' @ provided @ '' '' @ arrow @ '' '' @ suggested @ newline)
                          suggestedMappings)
           else []))"

definition tool_message :: "string \<Rightarrow> string \<Rightarrow> message" where
  "tool_message text toolName =
     \<lparr>msg_role = Tool, msg_content = text, msg_tool_calls = None,
      msg_tool_call_id = Some toolName\<rparr>"

text \<open>
  One round of the loop of \<open>handleToolCalls\<close>, up to the point where the soft-failure
  branch asks the model again: the loop goes on, or the diagnostic message was appended
  and the recovery begins, or an exception leaves the handler, or the provider never
  answers.
\<close>

datatype step = Continue state | SoftFailure state | StepThrows exn state | StepHangs state

definition toolStep :: "env \<Rightarrow> ToolManager \<Rightarrow> OllamaToolCall \<Rightarrow> state \<Rightarrow> step" where
  "toolStep E T toolCall st0 =
     (let args = parseToolArguments E (tc_arguments toolCall);
          st = log (''Using tool: '' @ tc_name toolCall) st0
      in case suggestParameterMapping (String_toLowerCase E) (tm_tools T) (tc_name toolCall) args of
           Inl e \<Rightarrow> StepThrows e st
         | Inr parameterMappings \<Rightarrow>
             (case fixToolArguments_json args parameterMappings of
                Inl e \<Rightarrow> StepThrows e st
              | Inr fixedArgs \<Rightarrow>
                  (let st1 = st\<lparr>tool_requests := Suc (tool_requests st)\<rparr>
                   in case callTool E T (tool_requests st) (tc_name toolCall) fixedArgs of
                        Pending \<Rightarrow> StepHangs st1
                      | Rejected t e \<Rightarrow> StepThrows e st1
                      | Fulfilled t None \<Rightarrow> Continue st1
                      | Fulfilled t (Some result) \<Rightarrow>
                          (case softFailureText (result_content result) of
                             Some errorText \<Rightarrow>
                               SoftFailure
                                 (push (tool_message
                                          (createDetailedErrorMessage (tc_name toolCall) errorText
                                             (getToolParameterInfo (tm_tools T) (tc_name toolCall))
                                             args parameterMappings)
                                          (tc_name toolCall)) st1)
                           | None \<Rightarrow>
                               Continue
                                 (push (tool_message (formatToolResponse (result_content result))
                                          (tc_name toolCall)) st1)))))"

definition isConnectionRefused :: "exn \<Rightarrow> bool" where
  "isConnectionRefused e = (cause_code e = Some ''ECONNREFUSED'')"

text \<open>How a call of the handler ends, with the state it leaves.\<close>

datatype outcome = Returns state | Throws exn state | Hangs state

text \<open>
  The two \<open>catch\<close> blocks of \<open>handleToolCalls\<close>: a refused connection is thrown again,
  any other error is written to the console and the handler returns.
\<close>

definition catch_block :: "string \<Rightarrow> outcome \<Rightarrow> outcome" where
  "catch_block label out =
     (case out of
        Throws e st \<Rightarrow>
          if isConnectionRefused e then Throws e st
          else Returns (log (label @ '' '' @ message e) st)
      | _ \<Rightarrow> out)"

definition toolCallsOf :: "message \<Rightarrow> OllamaToolCall list" where
  "toolCallsOf m = (case msg_tool_calls m of None \<Rightarrow> [] | Some tcs \<Rightarrow> tcs)"

definition hasNewToolCalls :: "env \<Rightarrow> OllamaToolCall \<Rightarrow> OllamaToolCall list \<Rightarrow> bool" where
  "hasNewToolCalls E toolCall newToolCalls =
     list_ex (\<lambda>call. tc_name call \<noteq> tc_name toolCall \<or>
                     JSON_stringify E (tc_arguments call) \<noteq>
                       JSON_stringify E (tc_arguments toolCall))
       newToolCalls"

definition hasNewTools :: "OllamaToolCall list \<Rightarrow> OllamaToolCall list \<Rightarrow> bool" where
  "hasNewTools toolCalls newToolCalls =
     list_ex (\<lambda>call. tc_name call \<notin> set (map tc_name toolCalls)) newToolCalls"

definition enter :: "state \<Rightarrow> state" where
  "enter st = log ''Model is using tools to help answer...'' st"

definition no_progress_notice :: string where
  "no_progress_notice = ''There was an issue with the tool call. Trying again.''"

text \<open>
  \<open>ChatManager.handleToolCalls\<close>, after its first console line (\<open>enter\<close>, written where
  the handler is called). \<open>toolCalls\<close> is the batch, \<open>rest\<close> what the loop has still to
  do. Nothing in the source bounds the recursion, so the depth of handler calls is
  bounded by fuel: \<open>None\<close> means the fuel ran out.
\<close>

fun handleToolCalls ::
  "nat \<Rightarrow> env \<Rightarrow> ToolManager \<Rightarrow> OllamaToolCall list \<Rightarrow> OllamaToolCall list \<Rightarrow> state \<Rightarrow>
   outcome option" where
  "handleToolCalls 0 E T toolCalls rest st = None"
| "handleToolCalls (Suc fuel) E T toolCalls [] st =
     (case chat E st of
        (Inl e, st1) \<Rightarrow> Some (catch_block ''Error getting final response:'' (Throws e st1))
      | (Inr finalResponse, st1) \<Rightarrow>
          (let st2 = log (''Assistant: '' @ msg_content finalResponse) (push finalResponse st1);
               newToolCalls = toolCallsOf finalResponse
           in if newToolCalls \<noteq> [] \<and> hasNewTools toolCalls newToolCalls
              then map_option (catch_block ''Error getting final response:'')
                     (handleToolCalls fuel E T newToolCalls newToolCalls (enter st2))
              else Some (Returns st2)))"
| "handleToolCalls (Suc fuel) E T toolCalls (toolCall # rest) st =
     (case toolStep E T toolCall st of
        Continue st1 \<Rightarrow> handleToolCalls (Suc fuel) E T toolCalls rest st1
      | StepThrows e st1 \<Rightarrow> Some (Throws e st1)
      | StepHangs st1 \<Rightarrow> Some (Hangs st1)
      | SoftFailure st1 \<Rightarrow>
          (case chat E st1 of
             (Inl e, st2) \<Rightarrow>
               Some (catch_block ''Error handling tool response:'' (Throws e st2))
           | (Inr errorResponse, st2) \<Rightarrow>
               (let st3 = push errorResponse st2;
                    newToolCalls = toolCallsOf errorResponse
                in if newToolCalls \<noteq> []
                   then if hasNewToolCalls E toolCall newToolCalls
                        then map_option (catch_block ''Error handling tool response:'')
                               (handleToolCalls fuel E T newToolCalls newToolCalls (enter st3))
                        else Some (Returns (log no_progress_notice st3))
                   else Some (Returns st3))))"

declare handleToolCalls.simps [simp del]

text \<open>
  \<open>ChatManager.processUserInput\<close>: whatever is thrown inside the \<open>try\<close>, the \<open>catch\<close>
  pops one message and throws it again.
\<close>

definition user_message :: "string \<Rightarrow> message" where
  "user_message userInput =
     \<lparr>msg_role = User, msg_content = userInput, msg_tool_calls = None,
      msg_tool_call_id = None\<rparr>"

definition processUserInput ::
  "nat \<Rightarrow> env \<Rightarrow> ToolManager \<Rightarrow> string \<Rightarrow> state \<Rightarrow> outcome option" where
  "processUserInput fuel E T userInput st0 =
     (case chat E (push (user_message userInput) st0) of
        (Inl error, st1) \<Rightarrow> Some (Throws error (pop st1))
      | (Inr response, st1) \<Rightarrow>
          (let st2 = push response st1;
               toolCalls = toolCallsOf response
           in if toolCalls = [] then Some (Returns (log (''Assistant: '' @ msg_content response) st2))
              else map_option
                     (\<lambda>out. case out of Throws error st' \<Rightarrow> Throws error (pop st') | _ \<Rightarrow> out)
                     (handleToolCalls fuel E T toolCalls toolCalls (enter st2))))"

text \<open>
  The loop of the handler run over a list of calls none of which leaves it: the state
  after them, if each one goes on to the next.
\<close>

fun batchContinues ::
  "env \<Rightarrow> ToolManager \<Rightarrow> OllamaToolCall list \<Rightarrow> state \<Rightarrow> state option" where
  "batchContinues E T [] st = Some st"
| "batchContinues E T (toolCall # rest) st =
     (case toolStep E T toolCall st of
        Continue st1 \<Rightarrow> batchContinues E T rest st1
      | _ \<Rightarrow> None)"

section \<open>Example data\<close>

text \<open>The \<open>search\<close> tool of the specification's examples: one declared parameter, \<open>query\<close>.\<close>

definition search_tool :: OpenAiTool where
  "search_tool =
     \<lparr>fn_name = ''search'', fn_description = ''Search the web'',
      fn_properties = [(''query'', JObj [(''type'', JStr ''string'')])],
      fn_required = [''query'']\<rparr>"

text \<open>
  An example world. Its \<open>JSON.parse\<close> decodes one text and rejects the rest, its
  \<open>JSON.stringify\<close> renders the top level only, its \<open>toLowerCase\<close> lowers the letters
  A to Z, as the built-in does on ASCII text; the theorems hold for every choice of the
  three. Its providers answer by tool name.
\<close>

definition ascii_toLowerCase :: "string \<Rightarrow> string" where
  "ascii_toLowerCase s =
     map (\<lambda>c. case map_of (zip ''ABCDEFGHIJKLMNOPQRSTUVWXYZ'' ''abcdefghijklmnopqrstuvwxyz'') c of
                 Some l \<Rightarrow> l
               | None \<Rightarrow> c) s"

definition example_parse :: "string \<Rightarrow> exn + json" where
  "example_parse s =
     (if s = ''{}'' then Inr (JObj []) else Inl (Exn ''Unexpected token in JSON'' None))"

definition example_stringify :: "json \<Rightarrow> string" where
  "example_stringify v =
     (case v of
        JNull \<Rightarrow> ''null''
      | JBool b \<Rightarrow> (if b then ''true'' else ''false'')
      | JNum n \<Rightarrow> ''0''
      | JStr s \<Rightarrow> [CHR 0x22] @ s @ [CHR 0x22]
      | JArr xs \<Rightarrow> ''[]''
      | JObj kvs \<Rightarrow> ''{'' @ join '','' (map fst kvs) @ ''}'')"

definition text_result :: "string \<Rightarrow> CallToolResult" where
  "text_result s = \<lparr>result_content = ContentArray [Block ''text'' (Some s)]\<rparr>"

definition example_provider :: "client \<Rightarrow> nat \<Rightarrow> string \<Rightarrow> json \<Rightarrow> CallToolResult promise" where
  "example_provider c i name args =
     (if name = ''slow_tool'' then Fulfilled 500 (text_result ''done'')
      else if name = ''very_slow'' then Fulfilled 60000 (text_result ''done at last'')
      else if name = ''read_file'' then Fulfilled 5 (text_result ''Error: file not found'')
      else if name = ''list_files'' then Fulfilled 5 (text_result ''3 files found'')
      else if name = ''read_many'' then
        Fulfilled 5
          \<lparr>result_content =
             ContentArray [Block ''text'' (Some ''2 files read''),
                           Block ''text'' (Some ''Error: c.txt not found'')]\<rparr>
      else if name = ''broken'' then Rejected 7 (Exn ''connection closed'' None)
      else Pending)"

definition example_env :: env where
  "example_env =
     \<lparr>JSON_parse = example_parse,
      JSON_stringify = example_stringify,
      String_toLowerCase = ascii_toLowerCase,
      String_of_unsafe_integer = String_of_nat,
      client_callTool = example_provider,
      timer_first_on_tie = False,
      ollama_chat = (\<lambda>n transcript. Inl (Exn ''fetch failed'' (Some ''ECONNREFUSED'')))\<rparr>"

definition read_file_tool :: OpenAiTool where
  "read_file_tool =
     \<lparr>fn_name = ''read_file'', fn_description = ''Read a file'',
      fn_properties = [(''path'', JObj [(''type'', JStr ''string'')])],
      fn_required = [''path'']\<rparr>"

definition plain_tool :: "string \<Rightarrow> OpenAiTool" where
  "plain_tool n = \<lparr>fn_name = n, fn_description = [], fn_properties = [], fn_required = []\<rparr>"

definition example_ToolManager :: ToolManager where
  "example_ToolManager =
     \<lparr>tm_toolMap =
        map_of [(Some ''slow_tool'', ''files''), (Some ''read_file'', ''files''),
                (Some ''list_files'', ''files''), (Some ''broken'', ''files''),
                (Some ''stuck'', ''files''), (Some ''very_slow'', ''files''),
                (Some ''read_many'', ''files'')],
      tm_clients = [''files''],
      tm_tools =
        read_file_tool #
        map plain_tool [''slow_tool'', ''list_files'', ''broken'', ''stuck'', ''very_slow'',
                        ''read_many'']\<rparr>"

text \<open>The session as the constructor of \<open>ChatManager\<close> leaves it.\<close>

definition system_message :: message where
  "system_message =
     \<lparr>msg_role = System,
      msg_content = ''You are a helpful AI assistant. Please provide clear, accurate, and relevant responses to user queries. If you need to use tools to help answer a question, explain what you're doing.'',
      msg_tool_calls = None, msg_tool_call_id = None\<rparr>"

definition new_state :: state where
  "new_state = \<lparr>messages = [system_message], model_calls = 0, tool_requests = 0, console = []\<rparr>"

text \<open>Two providers that both offer a tool named \<open>search\<close>.\<close>

definition web_search :: McpTool where
  "web_search =
     \<lparr>mcp_name = Some ''search'', mcp_description = Some ''Search the web'',
      mcp_inputSchema = Some \<lparr>schema_properties = Some [(''query'', JObj [])],
                              schema_required = Some [''query'']\<rparr>\<rparr>"

definition file_search :: McpTool where
  "file_search =
     \<lparr>mcp_name = Some ''search'', mcp_description = Some ''Search local files'',
      mcp_inputSchema = Some \<lparr>schema_properties = Some [(''pattern'', JObj [])],
                              schema_required = Some [''pattern'']\<rparr>\<rparr>"

definition two_providers :: "client \<Rightarrow> listTools_result" where
  "two_providers c =
     (if c = ''web'' then ToolsArray [ToolObject web_search]
      else if c = ''files'' then ToolsArray [ToolObject file_search]
      else ToolsNotArray)"

text \<open>
  A model that answers from a script, one entry per request, and refuses the connection
  when the script is exhausted; and two tool calls for it to issue.
\<close>

definition connection_refused :: exn where
  "connection_refused = Exn ''fetch failed'' (Some ''ECONNREFUSED'')"

definition scripted :: "(exn + message) list \<Rightarrow> nat \<Rightarrow> message list \<Rightarrow> exn + message" where
  "scripted script n transcript =
     (if n < length script then script ! n else Inl connection_refused)"

definition call_read_file :: OllamaToolCall where
  "call_read_file =
     \<lparr>tc_name = ''read_file'', tc_arguments = JObj [(''path'', JStr ''missing.txt'')]\<rparr>"

definition call_list_files :: OllamaToolCall where
  "call_list_files = \<lparr>tc_name = ''list_files'', tc_arguments = JObj []\<rparr>"

definition assistant :: "string \<Rightarrow> OllamaToolCall list \<Rightarrow> message" where
  "assistant text calls =
     \<lparr>msg_role = Assistant, msg_content = text, msg_tool_calls = Some calls,
      msg_tool_call_id = None\<rparr>"

definition call_read_many :: OllamaToolCall where
  "call_read_many = \<lparr>tc_name = ''read_many'', tc_arguments = JObj []\<rparr>"

text \<open>
  Three models: one asks for two tools and answers the failure of the second by issuing
  the same call again, one answers a finished batch by asking for a tool of that batch
  again, one by asking for another tool. Each refuses the connection when its script is
  at its end.
\<close>

definition repeating_env :: env where
  "repeating_env =
     example_env\<lparr>ollama_chat :=
       scripted [Inr (assistant [] [call_list_files, call_read_file]),
                 Inr (assistant [] [call_read_file])]\<rparr>"

definition same_tool_env :: env where
  "same_tool_env =
     example_env\<lparr>ollama_chat := scripted [Inr (assistant ''Here are the files.'' [call_list_files])]\<rparr>"

definition next_tool_env :: env where
  "next_tool_env =
     example_env\<lparr>ollama_chat := scripted [Inr (assistant ''Let me read it.'' [call_read_file])]\<rparr>"

text \<open>A model that asks for \<open>list_files\<close>; then the connection is lost.\<close>

definition dropped_env :: env where
  "dropped_env = example_env\<lparr>ollama_chat := scripted [Inr (assistant [] [call_list_files])]\<rparr>"

section \<open>Evaluation rules and lemmas about objects\<close>

lemmas string_eval =
  normalize_name_def ascii_toLowerCase_def strip_separators_def
  String_of_nat.simps digit_char_def index_keys_def upt_rec

lemmas object_eval =
  obj_set_def array_index_def mappedKey_def Object_prototype_def native_function_def

lemmas example_eval =
  example_env_def example_provider_def example_parse_def example_ToolManager_def
  text_result_def new_state_def read_file_tool_def plain_tool_def

lemma replace_map_of_at:
  "map_of (map (\<lambda>(k', v'). if k' = k then (k', v) else (k', v')) kvs) x =
     (if x = k \<and> k \<in> fst ` set kvs then Some v else map_of kvs x)"
proof (induction kvs arbitrary: x)
  case Nil
  show ?case by simp
next
  case (Cons kv kvs)
  obtain k' v' where kv: "kv = (k', v')" by (cases kv)
  show ?case
  proof (cases "k' = k")
    case True
    then show ?thesis by (simp add: kv Cons.IH)
  next
    case False
    then show ?thesis by (simp add: kv Cons.IH)
  qed
qed

lemma replace_map_of:
  "k \<in> fst ` set kvs \<Longrightarrow>
   map_of (map (\<lambda>(k', v'). if k' = k then (k', v) else (k', v')) kvs) = (map_of kvs)(k \<mapsto> v)"
  by (simp add: fun_eq_iff replace_map_of_at)

lemma replace_keys:
  "map (\<lambda>x. fst (case x of (k', v') \<Rightarrow> if k' = k then (k', v) else (k', v'))) kvs = map fst kvs"
  by (induction kvs) auto

lemma insert_index_set: "set (insert_index n k v kvs) = insert (k, v) (set kvs)"
proof (induction kvs)
  case Nil
  show ?case by simp
next
  case (Cons kv kvs)
  obtain k' v' where kv: "kv = (k', v')" by (cases kv)
  show ?case
  proof (cases "array_index k'")
    case None
    then show ?thesis by (simp add: kv insert_commute)
  next
    case (Some m)
    then show ?thesis by (cases "m < n") (simp_all add: kv Cons.IH insert_commute)
  qed
qed


lemma insert_index_map_of:
  "k \<notin> fst ` set kvs \<Longrightarrow> map_of (insert_index n k v kvs) = (map_of kvs)(k \<mapsto> v)"
proof (induction kvs)
  case Nil
  show ?case by simp
next
  case (Cons kv kvs)
  obtain k' v' where kv: "kv = (k', v')" by (cases kv)
  from Cons.prems have ne: "k' \<noteq> k" and fresh: "k \<notin> fst ` set kvs" by (auto simp: kv)
  have IH: "map_of (insert_index n k v kvs) = (map_of kvs)(k \<mapsto> v)"
    by (rule Cons.IH [OF fresh])
  show ?case
    using ne by (auto simp: kv IH fun_eq_iff split: option.splits)
qed


lemma obj_set_map_of:
  "map_of (obj_set kvs k v) = (if k = ''__proto__'' then map_of kvs else (map_of kvs)(k \<mapsto> v))"
proof (cases "k \<in> fst ` set kvs")
  case True
  then show ?thesis by (simp add: obj_set_def replace_map_of)
next
  case False
  then have none: "map_of kvs k = None" by (simp add: map_of_eq_None_iff)
  have "map_of (kvs @ [(k, v)]) = (map_of kvs)(k \<mapsto> v)"
    using none by (auto simp: fun_eq_iff map_add_def split: option.splits)
  then show ?thesis
    using False by (simp add: obj_set_def insert_index_map_of split: option.splits)
qed

lemma obj_set_keys:
  "set (map fst (obj_set kvs k v)) =
     (if k = ''__proto__'' then set (map fst kvs) else insert k (set (map fst kvs)))"
proof (cases "k \<in> fst ` set kvs")
  case True
  then have "map fst (obj_set kvs k v) = map fst kvs"
    by (simp add: obj_set_def replace_keys comp_def)
  then show ?thesis using True by auto
next
  case False
  then show ?thesis
    by (simp add: obj_set_def insert_index_set split: option.splits)
qed



lemma str_includes_sublist: "str_includes s t \<longleftrightarrow> sublist t s"
  by (induction s) (auto simp: sublist_Cons_right)

lemma findMostSimilarParameter_find:
  "findMostSimilarParameter lower provided expected =
     find (\<lambda>param. sublist (normalize_name lower provided) (normalize_name lower param) \<or>
                    sublist (normalize_name lower param) (normalize_name lower provided)) expected"
  by (induction expected) (simp_all add: str_includes_sublist Let_def)

lemma suggestLoop_map_of:
  "map_of (suggestLoop lower expected keys m) key =
     (if key \<in> set keys \<and> key \<notin> set expected \<and> key \<noteq> ''__proto__''
      then (case findMostSimilarParameter lower key expected of
              None \<Rightarrow> map_of m key
            | Some p \<Rightarrow> if p = [] then map_of m key else Some p)
      else map_of m key)"
proof (induction keys arbitrary: m key)
  case Nil
  show ?case by simp
next
  case (Cons k ks)
  show ?case
    by (cases "k = key") (auto simp: Cons.IH obj_set_map_of split: option.splits)
qed

section \<open>The parameter reconciler\<close>

text \<open>
  C4, as the code has it. For a tool of the catalog, \<open>suggestParameterMapping\<close> maps a
  provided key exactly when the key is not a declared parameter name, is not
  \<open>__proto__\<close> (an assignment to that key stores nothing), and some declared name
  matches it: both names are lower-cased by the built-in \<open>toLowerCase\<close> and stripped of
  underscores and hyphens, and the first declared name, in the \<open>Object.keys\<close> order of
  the schema's properties, one of whose normal forms is a contiguous substring of the
  other is proposed; a declared parameter with the empty name is never proposed and
  stops the search. For the tool \<open>search\<close> declaring \<open>query\<close>, the arguments
  \<open>{qry: "cats"}\<close> get the empty mapping (\<open>qry\<close> is not a contiguous part of
  \<open>query\<close>; the two words are in lower case already), and so do \<open>{query: "cats"}\<close>.
\<close>

theorem suggestParameterMapping_first_match:
  assumes "getToolParameterInfo tools toolName = Some tool"
      and "lower ''qry'' = ''qry''" and "lower ''query'' = ''query''"
  shows "(\<exists>mapping.
           suggestParameterMapping lower tools toolName (JObj providedArgs) = Inr mapping \<and>
           (\<forall>key. map_of mapping key =
              (if key \<in> fst ` set providedArgs \<and> key \<notin> fst ` set (fn_properties tool) \<and>
                  key \<noteq> ''__proto__''
               then (case find (\<lambda>param. sublist (normalize_name lower key) (normalize_name lower param) \<or>
                                         sublist (normalize_name lower param) (normalize_name lower key))
                            (map fst (fn_properties tool)) of
                       None \<Rightarrow> None
                     | Some param \<Rightarrow> if param = [] then None else Some param)
               else None))) \<and>
         suggestParameterMapping lower [search_tool] ''search'' (JObj [(''qry'', JStr ''cats'')]) = Inr [] \<and>
         suggestParameterMapping lower [search_tool] ''search'' (JObj [(''query'', JStr ''cats'')]) = Inr []"
proof -
  have n: "normalize_name lower ''qry'' = ''qry''" "normalize_name lower ''query'' = ''query''"
    using assms(2,3) by (simp_all add: normalize_name_def strip_separators_def)
  have ex1: "suggestParameterMapping lower [search_tool] ''search'' (JObj [(''qry'', JStr ''cats'')]) = Inr []"
    by (simp add: suggestParameterMapping_def getToolParameterInfo_def search_tool_def
        Object_keys_def n)
  have ex2: "suggestParameterMapping lower [search_tool] ''search'' (JObj [(''query'', JStr ''cats'')]) = Inr []"
    by (simp add: suggestParameterMapping_def getToolParameterInfo_def search_tool_def
        Object_keys_def)
  have "suggestParameterMapping lower tools toolName (JObj providedArgs) =
          Inr (suggestLoop lower (map fst (fn_properties tool)) (map fst providedArgs) [])"
    using assms(1) by (simp add: suggestParameterMapping_def Object_keys_def)
  moreover have "map_of (suggestLoop lower (map fst (fn_properties tool)) (map fst providedArgs) []) key =
      (if key \<in> fst ` set providedArgs \<and> key \<notin> fst ` set (fn_properties tool) \<and>
          key \<noteq> ''__proto__''
       then (case find (\<lambda>param. sublist (normalize_name lower key) (normalize_name lower param) \<or>
                                 sublist (normalize_name lower param) (normalize_name lower key))
                    (map fst (fn_properties tool)) of
               None \<Rightarrow> None
             | Some param \<Rightarrow> if param = [] then None else Some param)
       else None)" for key
    by (simp add: suggestLoop_map_of findMostSimilarParameter_find split: option.splits)
  ultimately show ?thesis using ex1 ex2 by simp
qed

theorem suggestParameterMapping_first_match_witness:
  "getToolParameterInfo [search_tool] ''search'' = Some search_tool \<and>
   ascii_toLowerCase ''qry'' = ''qry'' \<and> ascii_toLowerCase ''query'' = ''query'' \<and>
   (\<exists>mapping. suggestParameterMapping ascii_toLowerCase [search_tool] ''search''
                 (JObj [(''Search_Query'', JStr ''cats''), (''limit'', JNum 3),
                        (''__proto__'', JStr ''q'')]) = Inr mapping \<and>
              map_of mapping ''Search_Query'' = Some ''query'' \<and>
              map_of mapping ''limit'' = None \<and>
              map_of mapping ''__proto__'' = None) \<and>
   suggestParameterMapping ascii_toLowerCase [search_tool] ''search''
     (JObj [(''qry'', JStr ''cats'')]) = Inr []"
proof -
  let ?args = "[(''Search_Query'', JStr ''cats''), (''limit'', JNum 3), (''__proto__'', JStr ''q'')]"
  have h: "getToolParameterInfo [search_tool] ''search'' = Some search_tool"
    by (simp add: getToolParameterInfo_def search_tool_def)
  have l: "ascii_toLowerCase ''qry'' = ''qry''" "ascii_toLowerCase ''query'' = ''query''"
    by (simp_all add: ascii_toLowerCase_def)
  note T = suggestParameterMapping_first_match [OF h l, of ?args]
  from T obtain mapping where
    m: "suggestParameterMapping ascii_toLowerCase [search_tool] ''search'' (JObj ?args) = Inr mapping"
    and look: "\<And>key. map_of mapping key =
              (if key \<in> fst ` set ?args \<and> key \<notin> fst ` set (fn_properties search_tool) \<and>
                  key \<noteq> ''__proto__''
               then (case find (\<lambda>param. sublist (normalize_name ascii_toLowerCase key)
                                           (normalize_name ascii_toLowerCase param) \<or>
                                         sublist (normalize_name ascii_toLowerCase param)
                                           (normalize_name ascii_toLowerCase key))
                            (map fst (fn_properties search_tool)) of
                       None \<Rightarrow> None
                     | Some param \<Rightarrow> if param = [] then None else Some param)
               else None)"
    by blast
  from T have q: "suggestParameterMapping ascii_toLowerCase [search_tool] ''search''
     (JObj [(''qry'', JStr ''cats'')]) = Inr []"
    by blast
  have n1: "normalize_name ascii_toLowerCase ''Search_Query'' = ''searchquery''"
    and n2: "normalize_name ascii_toLowerCase ''limit'' = ''limit''"
    and n3: "normalize_name ascii_toLowerCase ''query'' = ''query''"
    by (simp_all add: string_eval)
  have a: "sublist ''query'' ''searchquery''"
    by (simp add: str_includes_sublist [symmetric])
  have b: "\<not> sublist ''limit'' ''query''" "\<not> sublist ''query'' ''limit''"
    by (simp_all add: str_includes_sublist [symmetric])
  have "map_of mapping ''Search_Query'' = Some ''query''"
    using look [of "''Search_Query''"] a by (simp add: search_tool_def n1 n3)
  moreover have "map_of mapping ''limit'' = None"
    using look [of "''limit''"] b by (simp add: search_tool_def n2 n3)
  moreover have "map_of mapping ''__proto__'' = None"
    using look [of "''__proto__''"] by simp
  ultimately show ?thesis using h l m q by blast
qed

text \<open>
  C4 as the specification states it fails: \<open>{qry: "cats"}\<close> is not mapped to \<open>query\<close>.
\<close>

theorem suggest_qry_counterexample:
  "ascii_toLowerCase ''qry'' = ''qry'' \<and> ascii_toLowerCase ''query'' = ''query'' \<and>
   suggestParameterMapping ascii_toLowerCase [search_tool] ''search'' (JObj [(''qry'', JStr ''cats'')])
     \<noteq> Inr [(''qry'', ''query'')]"
  by (simp add: suggestParameterMapping_def getToolParameterInfo_def search_tool_def
      Object_keys_def normalize_name_def ascii_toLowerCase_def strip_separators_def)

section \<open>Renaming the arguments\<close>












section \<open>The timed executor\<close>

text \<open>
  C7. In \<open>callToolWithTimeout\<close> the provider call races a timer, and the first to settle
  decides. The time-out is 30000 ms unless the caller gives another, and the timer is
  due after the time-out (after 1 ms for a time-out of 0 or above \<open>2^31 - 1\<close>, which
  \<open>setTimeout\<close> does not take). If the provider has not settled when the timer is due,
  and so whenever it has not settled when a time-out of at least 1 ms has passed, the call
  fails at the timer's moment with the time-out error, wrapped as every failure of the
  call is; the call never hangs; and a provider, called with the arguments (an object as
  it is), that settles before the timer is due gives its result, or its error wrapped.
\<close>

theorem callToolWithTimeout_times_out:
  "timeoutMs_of None = 30000 \<and> timeoutMs_of (Some ms) = ms \<and>
   parsedArgs E (JObj kvs) = JObj kvs \<and>
   (\<not> settled_by (client_callTool E c i name (parsedArgs E args))
        (setTimeout_delay (timeoutMs_of timeoutMs_opt)) \<longrightarrow>
      callToolWithTimeout E c i name args timeoutMs_opt =
        Rejected (setTimeout_delay (timeoutMs_of timeoutMs_opt))
          (Exn (''Tool call failed: Tool call timed out after '' @
                  Number_toString E (timeoutMs_of timeoutMs_opt) @ ''ms'') None)) \<and>
   (1 \<le> timeoutMs_of timeoutMs_opt \<longrightarrow>
    \<not> settled_by (client_callTool E c i name (parsedArgs E args)) (timeoutMs_of timeoutMs_opt) \<longrightarrow>
      callToolWithTimeout E c i name args timeoutMs_opt =
        Rejected (setTimeout_delay (timeoutMs_of timeoutMs_opt))
          (Exn (''Tool call failed: Tool call timed out after '' @
                  Number_toString E (timeoutMs_of timeoutMs_opt) @ ''ms'') None)) \<and>
   (1 \<le> ms \<longrightarrow> ms \<le> 2147483647 \<longrightarrow> setTimeout_delay ms = ms) \<and>
   Number_toString E 30000 = ''30000'' \<and>
   callToolWithTimeout E c i name args timeoutMs_opt \<noteq> Pending \<and>
   (\<forall>t r. client_callTool E c i name (parsedArgs E args) = Fulfilled t r \<longrightarrow>
      t < setTimeout_delay (timeoutMs_of timeoutMs_opt) \<longrightarrow>
      callToolWithTimeout E c i name args timeoutMs_opt = Fulfilled t r) \<and>
   (\<forall>t e. client_callTool E c i name (parsedArgs E args) = Rejected t e \<longrightarrow>
      t < setTimeout_delay (timeoutMs_of timeoutMs_opt) \<longrightarrow>
      callToolWithTimeout E c i name args timeoutMs_opt =
        Rejected t (Exn (''Tool call failed: '' @ message e) None))"
proof -
  let ?p = "client_callTool E c i name (parsedArgs E args)"
  let ?ms = "timeoutMs_of timeoutMs_opt"
  let ?timeout = "Rejected (setTimeout_delay ?ms)
          (Exn (''Tool call failed: Tool call timed out after '' @ Number_toString E ?ms @ ''ms'') None)"
  have d1: "timeoutMs_of None = 30000" "timeoutMs_of (Some ms) = ms"
    by (simp_all add: timeoutMs_of_def)
  have p: "parsedArgs E (JObj kvs) = JObj kvs"
    by (simp add: parsedArgs_def)
  have a: "\<not> settled_by ?p (setTimeout_delay ?ms) \<longrightarrow>
             callToolWithTimeout E c i name args timeoutMs_opt = ?timeout"
    by (cases ?p)
       (auto simp: callToolWithTimeout_def race_def settled_by_def timeoutError_def Let_def)
  have le: "setTimeout_delay ?ms \<le> ?ms" if "1 \<le> ?ms"
    using that by (simp add: setTimeout_delay_def)
  have mono: "settled_by ?p (setTimeout_delay ?ms) \<longrightarrow> settled_by ?p ?ms" if "1 \<le> ?ms"
    using le [OF that] by (cases ?p) (auto simp: settled_by_def)
  have b: "1 \<le> ?ms \<longrightarrow> \<not> settled_by ?p ?ms \<longrightarrow>
             callToolWithTimeout E c i name args timeoutMs_opt = ?timeout"
    using a mono by blast
  have c: "1 \<le> ms \<longrightarrow> ms \<le> 2147483647 \<longrightarrow> setTimeout_delay ms = ms"
    by (simp add: setTimeout_delay_def)
  have s: "Number_toString E 30000 = ''30000''"
    by (simp add: Number_toString_def String_of_nat.simps digit_char_def)
  have np: "callToolWithTimeout E c i name args timeoutMs_opt \<noteq> Pending"
    by (cases ?p) (auto simp: callToolWithTimeout_def race_def Let_def)
  have f: "\<forall>t r. ?p = Fulfilled t r \<longrightarrow> t < setTimeout_delay ?ms \<longrightarrow>
      callToolWithTimeout E c i name args timeoutMs_opt = Fulfilled t r"
    by (simp add: callToolWithTimeout_def race_def Let_def)
  have r: "\<forall>t e. ?p = Rejected t e \<longrightarrow> t < setTimeout_delay ?ms \<longrightarrow>
      callToolWithTimeout E c i name args timeoutMs_opt =
        Rejected t (Exn (''Tool call failed: '' @ message e) None)"
    by (simp add: callToolWithTimeout_def race_def Let_def)
  from d1 p a b c s np f r show ?thesis by blast
qed

text \<open>
  The specification's example, a time-out of 50 against a provider that answers after
  500; the default time-out against a provider that answers after 60000; and under the
  default time-out a provider that answers after 500 and one that fails after 7.
\<close>

theorem callToolWithTimeout_times_out_witness:
  "\<not> settled_by (client_callTool example_env ''files'' 0 ''slow_tool''
                   (parsedArgs example_env (JObj []))) (timeoutMs_of (Some 50)) \<and>
   (1::nat) \<le> timeoutMs_of (Some 50) \<and>
   callToolWithTimeout example_env ''files'' 0 ''slow_tool'' (JObj []) (Some 50) =
     Rejected 50 (Exn ''Tool call failed: Tool call timed out after 50ms'' None) \<and>
   \<not> settled_by (client_callTool example_env ''files'' 0 ''very_slow''
                   (parsedArgs example_env (JObj []))) (timeoutMs_of None) \<and>
   callToolWithTimeout example_env ''files'' 0 ''very_slow'' (JObj []) None =
     Rejected 30000 (Exn ''Tool call failed: Tool call timed out after 30000ms'' None) \<and>
   client_callTool example_env ''files'' 0 ''slow_tool'' (parsedArgs example_env (JObj [])) =
     Fulfilled 500 (text_result ''done'') \<and>
   500 < setTimeout_delay (timeoutMs_of None) \<and>
   callToolWithTimeout example_env ''files'' 0 ''slow_tool'' (JObj []) None =
     Fulfilled 500 (text_result ''done'') \<and>
   client_callTool example_env ''files'' 0 ''broken'' (parsedArgs example_env (JObj [])) =
     Rejected 7 (Exn ''connection closed'' None) \<and>
   callToolWithTimeout example_env ''files'' 0 ''broken'' (JObj []) None =
     Rejected 7 (Exn ''Tool call failed: connection closed'' None)"
proof -
  have s50: "Number_toString example_env 50 = ''50''"
    and s30: "Number_toString example_env 30000 = ''30000''"
    by (simp_all add: Number_toString_def String_of_nat.simps digit_char_def)
  have d: "setTimeout_delay 50 = 50" "setTimeout_delay 30000 = 30000"
    "timeoutMs_of (Some 50) = 50" "timeoutMs_of None = 30000"
    by (simp_all add: setTimeout_delay_def timeoutMs_of_def)
  have h1: "\<not> settled_by (client_callTool example_env ''files'' 0 ''slow_tool''
                   (parsedArgs example_env (JObj []))) (timeoutMs_of (Some 50))"
    and h2: "\<not> settled_by (client_callTool example_env ''files'' 0 ''very_slow''
                   (parsedArgs example_env (JObj []))) (timeoutMs_of None)"
    and h3: "client_callTool example_env ''files'' 0 ''slow_tool'' (parsedArgs example_env (JObj [])) =
               Fulfilled 500 (text_result ''done'')"
    and h4: "client_callTool example_env ''files'' 0 ''broken'' (parsedArgs example_env (JObj [])) =
               Rejected 7 (Exn ''connection closed'' None)"
    by (simp_all add: settled_by_def d example_eval)
  have g1: "(1::nat) \<le> timeoutMs_of (Some 50)" "(1::nat) \<le> timeoutMs_of None"
    and g2: "500 < setTimeout_delay (timeoutMs_of None)" "7 < setTimeout_delay (timeoutMs_of None)"
    by (simp_all add: d)
  from callToolWithTimeout_times_out [of 50 example_env "[]" "''files''" 0 "''slow_tool''" "JObj []" "Some 50"]
    h1 g1
  have r1: "callToolWithTimeout example_env ''files'' 0 ''slow_tool'' (JObj []) (Some 50) =
     Rejected 50 (Exn ''Tool call failed: Tool call timed out after 50ms'' None)"
    by (simp add: d s50)
  from callToolWithTimeout_times_out [of 50 example_env "[]" "''files''" 0 "''very_slow''" "JObj []" None]
    h2 g1
  have r2: "callToolWithTimeout example_env ''files'' 0 ''very_slow'' (JObj []) None =
     Rejected 30000 (Exn ''Tool call failed: Tool call timed out after 30000ms'' None)"
    by (simp add: d s30)
  from callToolWithTimeout_times_out [of 50 example_env "[]" "''files''" 0 "''slow_tool''" "JObj []" None]
    h3 g2
  have r3: "callToolWithTimeout example_env ''files'' 0 ''slow_tool'' (JObj []) None =
     Fulfilled 500 (text_result ''done'')"
    by blast
  from callToolWithTimeout_times_out [of 50 example_env "[]" "''files''" 0 "''broken''" "JObj []" None]
    h4 g2
  have r4: "callToolWithTimeout example_env ''files'' 0 ''broken'' (JObj []) None =
     Rejected 7 (Exn ''Tool call failed: connection closed'' None)"
    by auto
  from h1 g1 r1 h2 r2 h3 g2 r3 h4 r4 show ?thesis by blast
qed

section \<open>Arguments that fail to decode\<close>

text \<open>
  C5, as the code has it. When the raw arguments are a string that fails JSON decoding,
  \<open>callToolWithTimeout\<close> wraps the string as \<open>{value: <the string>}\<close> and calls the
  provider with it, and the session's \<open>parseToolArguments\<close> wraps it the same way; but
  \<open>executeToolCall\<close> decodes the string first, in \<open>parseToolCall\<close>, which throws the
  decoding error again, so that the caller of \<open>executeToolCall\<close> gets the error and the
  provider is not called.
\<close>

theorem decode_failure_fallback:
  "\<forall>err. JSON_parse E s = Inl err \<longrightarrow>
     parsedArgs E (JStr s) = JObj [(''value'', JStr s)] \<and>
     callToolWithTimeout E c i name (JStr s) timeoutMs_opt =
       (case race E (client_callTool E c i name (JObj [(''value'', JStr s)]))
               (timeoutMs_of timeoutMs_opt) of
          Fulfilled t result \<Rightarrow> Fulfilled t result
        | Rejected t error \<Rightarrow> Rejected t (Exn (''Tool call failed: '' @ message error) None)
        | Pending \<Rightarrow> Pending) \<and>
     parseToolArguments E (JStr s) = JObj [(''value'', JStr s)] \<and>
     (name \<noteq> [] \<longrightarrow>
        executeToolCall E T i
          \<lparr>call_id = cid, call_function = Some \<lparr>tc_name = name, tc_arguments = JStr s\<rparr>\<rparr> =
        Rejected 0 err)"
  by (simp add: parsedArgs_def callToolWithTimeout_def parseToolArguments_def
      executeToolCall_def parseToolCall_def)

theorem decode_failure_fallback_witness:
  "JSON_parse example_env ''{path: '' = Inl (Exn ''Unexpected token in JSON'' None) \<and>
   ''read_file'' \<noteq> [] \<and>
   callToolWithTimeout example_env ''files'' 0 ''read_file'' (JStr ''{path: '') None =
     Fulfilled 5 (text_result ''Error: file not found'') \<and>
   parseToolArguments example_env (JStr ''{path: '') = JObj [(''value'', JStr ''{path: '')] \<and>
   executeToolCall example_env example_ToolManager 0
     \<lparr>call_id = None,
      call_function = Some \<lparr>tc_name = ''read_file'', tc_arguments = JStr ''{path: ''\<rparr>\<rparr> =
     Rejected 0 (Exn ''Unexpected token in JSON'' None)"
proof -
  have h: "JSON_parse example_env ''{path: '' = Inl (Exn ''Unexpected token in JSON'' None)"
    by (simp add: example_eval)
  have n: "''read_file'' \<noteq> []" by simp
  from decode_failure_fallback [of example_env "''{path: ''" "''files''" 0 "''read_file''" None
      example_ToolManager None] h n
  have "callToolWithTimeout example_env ''files'' 0 ''read_file'' (JStr ''{path: '') None =
       (case race example_env
               (client_callTool example_env ''files'' 0 ''read_file''
                  (JObj [(''value'', JStr ''{path: '')]))
               (timeoutMs_of None) of
          Fulfilled t result \<Rightarrow> Fulfilled t result
        | Rejected t error \<Rightarrow> Rejected t (Exn (''Tool call failed: '' @ message error) None)
        | Pending \<Rightarrow> Pending)"
    and p: "parseToolArguments example_env (JStr ''{path: '') = JObj [(''value'', JStr ''{path: '')]"
    and x: "executeToolCall example_env example_ToolManager 0
     \<lparr>call_id = None,
      call_function = Some \<lparr>tc_name = ''read_file'', tc_arguments = JStr ''{path: ''\<rparr>\<rparr> =
     Rejected 0 (Exn ''Unexpected token in JSON'' None)"
    by blast+
  then have "callToolWithTimeout example_env ''files'' 0 ''read_file'' (JStr ''{path: '') None =
     Fulfilled 5 (text_result ''Error: file not found'')"
    by (simp add: race_def setTimeout_delay_def timeoutMs_of_def Let_def example_eval)
  with h n p x show ?thesis by blast
qed

text \<open>
  C5 as stated fails: through \<open>executeToolCall\<close> the decoding error reaches the caller.
\<close>

theorem executeToolCall_decode_failure_counterexample:
  "JSON_parse example_env ''{path: '' = Inl (Exn ''Unexpected token in JSON'' None) \<and>
   executeToolCall example_env example_ToolManager 0
     \<lparr>call_id = None,
      call_function = Some \<lparr>tc_name = ''read_file'', tc_arguments = JStr ''{path: ''\<rparr>\<rparr> =
     Rejected 0 (Exn ''Unexpected token in JSON'' None)"
  by (simp add: executeToolCall_def parseToolCall_def example_eval)

section \<open>The executor of the session\<close>

text \<open>
  C9. \<open>callTool\<close> never throws and has no time-out: for a name that is not in the dispatch
  table, and when the provider call throws, it returns \<open>undefined\<close>; otherwise it returns
  what the provider resolves with, at whatever time that is, and does not return while
  the provider does not settle. When it returns \<open>undefined\<close> the batch handler goes on to
  the next call and the transcript is as it was: no tool-role message is appended.
\<close>

theorem callTool_never_throws:
  "(\<forall>t e. callTool E T i toolName args \<noteq> Rejected t e) \<and>
   (tm_toolMap T (Some toolName) = None \<longrightarrow> callTool E T i toolName args = Fulfilled 0 None) \<and>
   (\<forall>c t e. tm_toolMap T (Some toolName) = Some c \<longrightarrow>
              client_callTool E c i toolName args = Rejected t e \<longrightarrow>
              callTool E T i toolName args = Fulfilled t None) \<and>
   (\<forall>c t r. tm_toolMap T (Some toolName) = Some c \<longrightarrow>
              client_callTool E c i toolName args = Fulfilled t r \<longrightarrow>
              callTool E T i toolName args = Fulfilled t (Some r)) \<and>
   (\<forall>c. tm_toolMap T (Some toolName) = Some c \<longrightarrow>
          client_callTool E c i toolName args = Pending \<longrightarrow>
          callTool E T i toolName args = Pending) \<and>
   (\<forall>mappings fixedArgs t.
      suggestParameterMapping (String_toLowerCase E) (tm_tools T) (tc_name toolCall)
        (parseToolArguments E (tc_arguments toolCall)) = Inr mappings \<longrightarrow>
      fixToolArguments_json (parseToolArguments E (tc_arguments toolCall)) mappings = Inr fixedArgs \<longrightarrow>
      callTool E T (tool_requests st) (tc_name toolCall) fixedArgs = Fulfilled t None \<longrightarrow>
      (\<exists>st'. toolStep E T toolCall st = Continue st' \<and> messages st' = messages st))"
proof -
  have a: "\<forall>t e. callTool E T i toolName args \<noteq> Rejected t e"
    by (auto simp: callTool_def split: option.splits promise.splits)
  have b: "tm_toolMap T (Some toolName) = None \<longrightarrow> callTool E T i toolName args = Fulfilled 0 None"
    by (simp add: callTool_def)
  have c: "\<forall>c t e. tm_toolMap T (Some toolName) = Some c \<longrightarrow>
              client_callTool E c i toolName args = Rejected t e \<longrightarrow>
              callTool E T i toolName args = Fulfilled t None"
    by (simp add: callTool_def)
  have d: "\<forall>c t r. tm_toolMap T (Some toolName) = Some c \<longrightarrow>
              client_callTool E c i toolName args = Fulfilled t r \<longrightarrow>
              callTool E T i toolName args = Fulfilled t (Some r)"
    by (simp add: callTool_def)
  have e: "\<forall>c. tm_toolMap T (Some toolName) = Some c \<longrightarrow>
          client_callTool E c i toolName args = Pending \<longrightarrow>
          callTool E T i toolName args = Pending"
    by (simp add: callTool_def)
  have f: "\<forall>mappings fixedArgs t.
      suggestParameterMapping (String_toLowerCase E) (tm_tools T) (tc_name toolCall)
        (parseToolArguments E (tc_arguments toolCall)) = Inr mappings \<longrightarrow>
      fixToolArguments_json (parseToolArguments E (tc_arguments toolCall)) mappings = Inr fixedArgs \<longrightarrow>
      callTool E T (tool_requests st) (tc_name toolCall) fixedArgs = Fulfilled t None \<longrightarrow>
      (\<exists>st'. toolStep E T toolCall st = Continue st' \<and> messages st' = messages st)"
    by (simp add: toolStep_def Let_def log_def)
  from a b c d e f show ?thesis by blast
qed

theorem callTool_never_throws_witness:
  "tm_toolMap example_ToolManager (Some ''nope'') = None \<and>
   callTool example_env example_ToolManager 0 ''nope'' (JObj []) = Fulfilled 0 None \<and>
   tm_toolMap example_ToolManager (Some ''broken'') = Some ''files'' \<and>
   client_callTool example_env ''files'' 0 ''broken'' (JObj []) =
     Rejected 7 (Exn ''connection closed'' None) \<and>
   callTool example_env example_ToolManager 0 ''broken'' (JObj []) = Fulfilled 7 None \<and>
   callTool example_env example_ToolManager 0 ''very_slow'' (JObj []) =
     Fulfilled 60000 (Some (text_result ''done at last'')) \<and>
   callTool example_env example_ToolManager 0 ''stuck'' (JObj []) = Pending \<and>
   (\<exists>st'. toolStep example_env example_ToolManager
            \<lparr>tc_name = ''nope'', tc_arguments = JObj []\<rparr> new_state = Continue st' \<and>
          messages st' = messages new_state)"
proof -
  let ?nope = "\<lparr>tc_name = ''nope'', tc_arguments = JObj []\<rparr>"
  have n1: "tm_toolMap example_ToolManager (Some ''nope'') = None"
    by (simp add: example_eval)
  have b1: "tm_toolMap example_ToolManager (Some ''broken'') = Some ''files''"
    and b2: "client_callTool example_env ''files'' 0 ''broken'' (JObj []) =
               Rejected 7 (Exn ''connection closed'' None)"
    by (simp_all add: example_eval)
  have v1: "tm_toolMap example_ToolManager (Some ''very_slow'') = Some ''files''"
    and v2: "client_callTool example_env ''files'' 0 ''very_slow'' (JObj []) =
               Fulfilled 60000 (text_result ''done at last'')"
    by (simp_all add: example_eval)
  have s1: "tm_toolMap example_ToolManager (Some ''stuck'') = Some ''files''"
    and s2: "client_callTool example_env ''files'' 0 ''stuck'' (JObj []) = Pending"
    by (simp_all add: example_eval)
  have m: "suggestParameterMapping (String_toLowerCase example_env) (tm_tools example_ToolManager) (tc_name ?nope)
             (parseToolArguments example_env (tc_arguments ?nope)) = Inr []"
    by (simp add: suggestParameterMapping_def getToolParameterInfo_def parseToolArguments_def
        example_eval)
  have f: "fixToolArguments_json (parseToolArguments example_env (tc_arguments ?nope)) [] =
             Inr (JObj [])"
    by (simp add: fixToolArguments_json_def fixToolArguments_def parseToolArguments_def)
  from callTool_never_throws [of example_env example_ToolManager 0 "''nope''" "JObj []" ?nope new_state] n1
  have r1: "callTool example_env example_ToolManager 0 ''nope'' (JObj []) = Fulfilled 0 None"
    by blast
  have t0: "tool_requests new_state = 0" "tc_name ?nope = ''nope''"
    by (simp_all add: new_state_def)
  from callTool_never_throws [of example_env example_ToolManager 0 "''nope''" "JObj []" ?nope new_state]
  have "\<forall>mappings fixedArgs t.
      suggestParameterMapping (String_toLowerCase example_env) (tm_tools example_ToolManager) (tc_name ?nope)
        (parseToolArguments example_env (tc_arguments ?nope)) = Inr mappings \<longrightarrow>
      fixToolArguments_json (parseToolArguments example_env (tc_arguments ?nope)) mappings =
        Inr fixedArgs \<longrightarrow>
      callTool example_env example_ToolManager (tool_requests new_state) (tc_name ?nope) fixedArgs =
        Fulfilled t None \<longrightarrow>
      (\<exists>st'. toolStep example_env example_ToolManager ?nope new_state = Continue st' \<and>
             messages st' = messages new_state)"
    by blast
  with m f r1 t0
  have r2: "\<exists>st'. toolStep example_env example_ToolManager ?nope new_state = Continue st' \<and>
             messages st' = messages new_state"
    by metis
  from callTool_never_throws [of example_env example_ToolManager 0 "''broken''" "JObj []"] b1 b2
  have r3: "callTool example_env example_ToolManager 0 ''broken'' (JObj []) = Fulfilled 7 None"
    by blast
  from callTool_never_throws [of example_env example_ToolManager 0 "''very_slow''" "JObj []"] v1 v2
  have r4: "callTool example_env example_ToolManager 0 ''very_slow'' (JObj []) =
     Fulfilled 60000 (Some (text_result ''done at last''))"
    by blast
  from callTool_never_throws [of example_env example_ToolManager 0 "''stuck''" "JObj []"] s1 s2
  have r5: "callTool example_env example_ToolManager 0 ''stuck'' (JObj []) = Pending"
    by blast
  from n1 r1 b1 b2 r3 r4 r5 r2 show ?thesis by blast
qed

section \<open>The catalog and the dispatch table\<close>

lemma registerTools_map_of:
  "registerTools m c ts = m ++ map_of (rev (map (\<lambda>tool. (mcp_name tool, c)) ts))"
proof (induction ts arbitrary: m)
  case Nil
  show ?case by simp
next
  case (Cons tool rest)
  have "m(mcp_name tool \<mapsto> c) = m ++ map_of [(mcp_name tool, c)]" by simp
  then show ?case by (simp add: Cons.IH del: map_of.simps)
qed

lemma initializeLoop_eq:
  "initializeLoop lt cs (m, allMcpTools) =
     (m ++ map_of (rev (registrations lt cs)), allMcpTools @ concat (map (offeredTools lt) cs))"
proof (induction cs arbitrary: m allMcpTools)
  case Nil
  show ?case by (simp add: registrations_def)
next
  case (Cons c rest)
  show ?case
    by (cases "fetchTools (lt c)")
       (simp_all add: Cons.IH registrations_def offeredTools_def registerTools_map_of)
qed

lemma map_of_same_value:
  "map_of (map (\<lambda>x. (f x, c)) xs) k = (if k \<in> f ` set xs then Some c else None)"
  by (induction xs) auto

lemma registrations_last:
  "map_of (rev (registrations lt cs)) k =
     (if filter (\<lambda>c. k \<in> mcp_name ` set (offeredTools lt c)) cs = [] then None
      else Some (last (filter (\<lambda>c. k \<in> mcp_name ` set (offeredTools lt c)) cs)))"
proof (induction cs rule: rev_induct)
  case Nil
  show ?case by (simp add: registrations_def)
next
  case (snoc c cs)
  have a: "map_of (rev (registrations lt (cs @ [c]))) k =
          (map_of (rev (registrations lt cs)) ++
           map_of (rev (map (\<lambda>tool. (mcp_name tool, c)) (offeredTools lt c)))) k"
    by (simp add: registrations_def)
  have b: "map_of (rev (map (\<lambda>tool. (mcp_name tool, c)) (offeredTools lt c))) k =
          (if k \<in> mcp_name ` set (offeredTools lt c) then Some c else None)"
    using map_of_same_value [of mcp_name c "rev (offeredTools lt c)" k] by (simp add: rev_map)
  show ?case
    by (simp add: a b map_add_def snoc.IH)
qed

lemma convert_find:
  "n \<noteq> [] \<Longrightarrow>
   find (\<lambda>t. fn_name t = n) (convertToOpenaiTools ts) =
     map_option (openaiTool n) (find (\<lambda>tool. mcp_name tool = Some n) ts)"
  by (induction ts) (auto simp: openaiTool_def split: option.splits)

lemma convert_filter_length:
  "n \<noteq> [] \<Longrightarrow>
   length (filter (\<lambda>t. fn_name t = n) (convertToOpenaiTools ts)) =
     length (filter (\<lambda>tool. mcp_name tool = Some n) ts)"
  by (induction ts) (auto simp: openaiTool_def split: option.splits)

lemmas catalog_eval =
  initialize_def new_ToolManager_def two_providers_def web_search_def file_search_def
  openaiTool_def offeredTools_def getToolParameterInfo_def

text \<open>
  C8, as the code has it. After \<open>initialize\<close> on a fresh ToolManager the dispatch table
  maps a tool name to the last client (in connection order) that offers it: a later
  provider shadows an earlier one there. The catalog handed to the model is not
  de-duplicated: it is the conversion of all offered tools, provider after provider, so a
  name that two providers offer stands in it twice, and looking the name up in the
  catalog (\<open>getToolParameterInfo\<close>) finds the entry of the first provider.
\<close>

theorem initialize_collisions:
  assumes "newClients \<noteq> []"
  shows "\<exists>T'. initialize lt newClients new_ToolManager = Inr T' \<and>
           tm_tools T' = convertToOpenaiTools (concat (map (offeredTools lt) newClients)) \<and>
           (\<forall>k. tm_toolMap T' k =
              (if filter (\<lambda>c. k \<in> mcp_name ` set (offeredTools lt c)) newClients = [] then None
               else Some (last (filter (\<lambda>c. k \<in> mcp_name ` set (offeredTools lt c)) newClients)))) \<and>
           (\<forall>n. n \<noteq> [] \<longrightarrow>
              getToolParameterInfo (tm_tools T') n =
                map_option (openaiTool n)
                  (find (\<lambda>tool. mcp_name tool = Some n)
                     (concat (map (offeredTools lt) newClients))) \<and>
              length (filter (\<lambda>t. fn_name t = n) (tm_tools T')) =
                length (filter (\<lambda>tool. mcp_name tool = Some n)
                          (concat (map (offeredTools lt) newClients))))"
proof -
  let ?all = "concat (map (offeredTools lt) newClients)"
  let ?T = "new_ToolManager\<lparr>tm_clients := newClients,
              tm_toolMap := map_of (rev (registrations lt newClients)),
              tm_tools := convertToOpenaiTools ?all\<rparr>"
  have "initialize lt newClients new_ToolManager = Inr ?T"
    using assms by (simp add: initialize_def initializeLoop_eq new_ToolManager_def)
  moreover have "tm_tools ?T = convertToOpenaiTools ?all" by simp
  moreover have "\<forall>k. tm_toolMap ?T k =
              (if filter (\<lambda>c. k \<in> mcp_name ` set (offeredTools lt c)) newClients = [] then None
               else Some (last (filter (\<lambda>c. k \<in> mcp_name ` set (offeredTools lt c)) newClients)))"
    by (simp add: registrations_last)
  moreover have "\<forall>n. n \<noteq> [] \<longrightarrow>
              getToolParameterInfo (tm_tools ?T) n =
                map_option (openaiTool n) (find (\<lambda>tool. mcp_name tool = Some n) ?all) \<and>
              length (filter (\<lambda>t. fn_name t = n) (tm_tools ?T)) =
                length (filter (\<lambda>tool. mcp_name tool = Some n) ?all)"
    by (simp add: getToolParameterInfo_def convert_find convert_filter_length)
  ultimately show ?thesis by blast
qed

theorem initialize_collisions_witness:
  "[''web'', ''files''] \<noteq> [] \<and> ''search'' \<noteq> [] \<and>
   (\<exists>T'. initialize two_providers [''web'', ''files''] new_ToolManager = Inr T' \<and>
      tm_toolMap T' (Some ''search'') = Some ''files'' \<and>
      getToolParameterInfo (tm_tools T') ''search'' = Some (openaiTool ''search'' web_search) \<and>
      length (filter (\<lambda>t. fn_name t = ''search'') (tm_tools T')) = 2)"
proof -
  have h: "[''web'', ''files''] \<noteq> ([] :: client list)" by simp
  have n: "''search'' \<noteq> []" by simp
  from initialize_collisions [OF h, of two_providers]
  obtain T' where
    i: "initialize two_providers [''web'', ''files''] new_ToolManager = Inr T'"
    and m: "\<And>k. tm_toolMap T' k =
              (if filter (\<lambda>c. k \<in> mcp_name ` set (offeredTools two_providers c)) [''web'', ''files''] = [] then None
               else Some (last (filter (\<lambda>c. k \<in> mcp_name ` set (offeredTools two_providers c)) [''web'', ''files''])))"
    and g: "\<And>n. n \<noteq> [] \<longrightarrow>
              getToolParameterInfo (tm_tools T') n =
                map_option (openaiTool n)
                  (find (\<lambda>tool. mcp_name tool = Some n)
                     (concat (map (offeredTools two_providers) [''web'', ''files'']))) \<and>
              length (filter (\<lambda>t. fn_name t = n) (tm_tools T')) =
                length (filter (\<lambda>tool. mcp_name tool = Some n)
                          (concat (map (offeredTools two_providers) [''web'', ''files''])))"
    by blast
  have o: "offeredTools two_providers ''web'' = [web_search]"
    "offeredTools two_providers ''files'' = [file_search]"
    by (simp_all add: offeredTools_def two_providers_def)
  have names: "mcp_name web_search = Some ''search''" "mcp_name file_search = Some ''search''"
    by (simp_all add: web_search_def file_search_def)
  have "tm_toolMap T' (Some ''search'') = Some ''files''"
    using m [of "Some ''search''"] by (simp add: o names)
  moreover have "getToolParameterInfo (tm_tools T') ''search'' = Some (openaiTool ''search'' web_search)"
    using g [of "''search''"] n by (simp add: o names)
  moreover have "length (filter (\<lambda>t. fn_name t = ''search'') (tm_tools T')) = 2"
    using g [of "''search''"] n by (simp add: o names)
  ultimately show ?thesis using h n i by blast
qed

text \<open>
  C8 as stated fails: with two providers that offer \<open>search\<close> the catalog names are not
  unique, and the catalog entry found for \<open>search\<close> is the earlier provider's.
\<close>

theorem catalog_names_not_unique_counterexample:
  "\<exists>T'. initialize two_providers [''web'', ''files''] new_ToolManager = Inr T' \<and>
         map fn_name (tm_tools T') = [''search'', ''search''] \<and>
         \<not> distinct (map fn_name (tm_tools T')) \<and>
         map_option fn_description (getToolParameterInfo (tm_tools T') ''search'') =
           Some ''Search the web''"
  by (simp add: catalog_eval)

section \<open>The batch handler\<close>

lemmas session_eval =
  toolStep_def Let_def log_def push_def pop_def enter_def chat_def
  suggestParameterMapping_def getToolParameterInfo_def Object_keys_def
  parseToolArguments_def fixToolArguments_json_def fixToolArguments_def object_eval
  callTool_def tool_message_def formatToolResponse_def createDetailedErrorMessage_def
  newline_def catch_block_def isConnectionRefused_def connection_refused_def
  toolCallsOf_def hasNewTools_def hasNewToolCalls_def user_message_def
  scripted_def assistant_def example_stringify_def
  call_read_file_def call_list_files_def call_read_many_def
  repeating_env_def same_tool_env_def next_tool_env_def dropped_env_def

lemma handleToolCalls_prefix:
  "batchContinues E T before st = Some st1 \<Longrightarrow>
   handleToolCalls (Suc fuel) E T toolCalls (before @ rest) st =
     handleToolCalls (Suc fuel) E T toolCalls rest st1"
proof (induction before arbitrary: st)
  case Nil
  then show ?case by simp
next
  case (Cons toolCall before)
  then show ?case
    by (cases "toolStep E T toolCall st") (simp_all add: handleToolCalls.simps)
qed

lemma toolStep_model_calls:
  "toolStep E T toolCall st = Continue st' \<or> toolStep E T toolCall st = SoftFailure st' \<Longrightarrow>
   model_calls st' = model_calls st"
  by (auto simp: toolStep_def Let_def log_def push_def
      split: sum.splits promise.splits option.splits)

lemma batchContinues_model_calls:
  "batchContinues E T calls st = Some st' \<Longrightarrow> model_calls st' = model_calls st"
proof (induction calls arbitrary: st)
  case Nil
  then show ?case by simp
next
  case (Cons toolCall calls)
  then show ?case
    by (cases "toolStep E T toolCall st") (auto dest: toolStep_model_calls [OF disjI1])
qed

lemma join_head: "sublist x (join sep (x # xs))"
  by (cases xs) simp_all

lemma softFailureText_cases:
  "softFailureText c = Some text \<longleftrightarrow>
     (\<exists>rest. c = ContentArray (Block ''text'' (Some text) # rest) \<and> sublist ''Error'' text)"
  by (induction c rule: softFailureText.induct) (auto simp: str_includes_sublist)

lemma soft_failure_flattened:
  assumes "softFailureText c = Some text"
  shows "sublist ''Error'' (formatToolResponse c)"
proof -
  from assms obtain rest where c: "c = ContentArray (Block ''text'' (Some text) # rest)"
    and e: "sublist ''Error'' text"
    by (auto simp: softFailureText_cases)
  from e have "text \<noteq> []" by auto
  then have "sublist text (formatToolResponse c)"
    by (simp add: c formatToolResponse_def join_head)
  with e show ?thesis by (rule sublist_order.order_trans)
qed

lemma diagnostic_contents:
  "sublist errorText (createDetailedErrorMessage toolName errorText toolInfo args mappings) \<and>
   (toolInfo \<noteq> None \<longrightarrow>
      sublist ''Expected parameters''
        (createDetailedErrorMessage toolName errorText toolInfo args mappings))"
proof -
  let ?m = "createDetailedErrorMessage toolName errorText toolInfo args mappings"
  have "\<exists>ps ss. ?m = ps @ errorText @ ss"
    unfolding createDetailedErrorMessage_def
    by (rule exI [of _ "''Error using tool '' @ toolName @ '':'' @ newline"]) auto
  then have a: "sublist errorText ?m" by (simp add: sublist_def)
  have b: "sublist ''Expected parameters'' ?m" if "toolInfo \<noteq> None"
  proof -
    from that obtain tool where t: "toolInfo = Some tool" by auto
    have "\<exists>ps ss. ?m = ps @ ''Expected parameters'' @ ss"
      unfolding createDetailedErrorMessage_def t
      by (rule exI [of _ "''Error using tool '' @ toolName @ '':'' @ newline @ errorText @ newline @ newline"])
         auto
    then show ?thesis by (simp add: sublist_def)
  qed
  from a b show ?thesis by blast
qed

subsection \<open>Soft failures\<close>

text \<open>
  C3, as the code has it. A result that \<open>callTool\<close> returned to the batch handler is
  taken for a soft failure exactly when its content is an array whose first block is a
  text block whose text contains \<open>Error\<close>; later blocks are not looked at. The flattened
  text of a soft failure then contains \<open>Error\<close> too. A soft failure appends, in place
  of the plain result, one tool-role message tagged with the tool name that contains the
  error text and, when the tool is in the catalog, the substring
  \<open>Expected parameters\<close>; every other result is appended as a tool-role message that
  carries the flattened text.
\<close>

theorem soft_failure_classification:
  assumes "suggestParameterMapping (String_toLowerCase E) (tm_tools T) (tc_name toolCall)
             (parseToolArguments E (tc_arguments toolCall)) = Inr mappings"
      and "fixToolArguments_json (parseToolArguments E (tc_arguments toolCall)) mappings =
             Inr fixedArgs"
      and "callTool E T (tool_requests st) (tc_name toolCall) fixedArgs = Fulfilled t (Some result)"
  shows "((\<exists>st'. toolStep E T toolCall st = SoftFailure st') \<longleftrightarrow>
            (\<exists>text rest. result_content result = ContentArray (Block ''text'' (Some text) # rest) \<and>
                         sublist ''Error'' text)) \<and>
         ((\<exists>st'. toolStep E T toolCall st = SoftFailure st') \<longrightarrow>
            sublist ''Error'' (formatToolResponse (result_content result))) \<and>
         (\<forall>st'. toolStep E T toolCall st = SoftFailure st' \<longrightarrow>
            (\<exists>text rest m.
               result_content result = ContentArray (Block ''text'' (Some text) # rest) \<and>
               messages st' = messages st @ [m] \<and>
               msg_role m = Tool \<and> msg_tool_call_id m = Some (tc_name toolCall) \<and>
               sublist text (msg_content m) \<and>
               (getToolParameterInfo (tm_tools T) (tc_name toolCall) \<noteq> None \<longrightarrow>
                  sublist ''Expected parameters'' (msg_content m)))) \<and>
         ((\<forall>st'. toolStep E T toolCall st \<noteq> SoftFailure st') \<longrightarrow>
            (\<exists>st'. toolStep E T toolCall st = Continue st' \<and>
               messages st' = messages st @
                 [tool_message (formatToolResponse (result_content result)) (tc_name toolCall)]))"
proof (cases "softFailureText (result_content result)")
  case None
  then have step: "toolStep E T toolCall st =
      Continue (push (tool_message (formatToolResponse (result_content result)) (tc_name toolCall))
                 ((log (''Using tool: '' @ tc_name toolCall) st)
                    \<lparr>tool_requests := Suc (tool_requests (log (''Using tool: '' @ tc_name toolCall) st))\<rparr>))"
    using assms by (simp add: toolStep_def Let_def log_def)
  have no: "\<not> (\<exists>text rest. result_content result = ContentArray (Block ''text'' (Some text) # rest) \<and>
                         sublist ''Error'' text)"
    using None softFailureText_cases [of "result_content result"] by auto
  show ?thesis
    using no by (simp add: step push_def log_def)
next
  case (Some errorText)
  let ?m = "tool_message
              (createDetailedErrorMessage (tc_name toolCall) errorText
                 (getToolParameterInfo (tm_tools T) (tc_name toolCall))
                 (parseToolArguments E (tc_arguments toolCall)) mappings)
              (tc_name toolCall)"
  from Some have step: "toolStep E T toolCall st =
      SoftFailure (push ?m
                 ((log (''Using tool: '' @ tc_name toolCall) st)
                    \<lparr>tool_requests := Suc (tool_requests (log (''Using tool: '' @ tc_name toolCall) st))\<rparr>))"
    using assms by (simp add: toolStep_def Let_def log_def)
  from Some obtain rest where c: "result_content result = ContentArray (Block ''text'' (Some errorText) # rest)"
    and e: "sublist ''Error'' errorText"
    by (auto simp: softFailureText_cases)
  have flat: "sublist ''Error'' (formatToolResponse (result_content result))"
    by (rule soft_failure_flattened [OF Some])
  have d: "sublist errorText (msg_content ?m) \<and>
           (getToolParameterInfo (tm_tools T) (tc_name toolCall) \<noteq> None \<longrightarrow>
              sublist ''Expected parameters'' (msg_content ?m))"
    using diagnostic_contents [of errorText "tc_name toolCall"
        "getToolParameterInfo (tm_tools T) (tc_name toolCall)"
        "parseToolArguments E (tc_arguments toolCall)" mappings]
    by (simp add: tool_message_def)
  have m: "msg_role ?m = Tool" "msg_tool_call_id ?m = Some (tc_name toolCall)"
    by (simp_all add: tool_message_def)
  have msgs: "messages (push ?m
                 ((log (''Using tool: '' @ tc_name toolCall) st)
                    \<lparr>tool_requests := Suc (tool_requests (log (''Using tool: '' @ tc_name toolCall) st))\<rparr>))
              = messages st @ [?m]"
    by (simp add: push_def log_def)
  show ?thesis
    unfolding step using c e flat d m msgs by auto
qed

text \<open>
  The specification's two examples: \<open>Error: file not found\<close> is a soft failure with a
  diagnostic message, \<open>3 files found\<close> is appended as it is.
\<close>

theorem soft_failure_classification_witness:
  "suggestParameterMapping (String_toLowerCase example_env) (tm_tools example_ToolManager) (tc_name call_read_file)
     (parseToolArguments example_env (tc_arguments call_read_file)) = Inr [] \<and>
   fixToolArguments_json (parseToolArguments example_env (tc_arguments call_read_file)) [] =
     Inr (JObj [(''path'', JStr ''missing.txt'')]) \<and>
   callTool example_env example_ToolManager (tool_requests new_state) (tc_name call_read_file)
     (JObj [(''path'', JStr ''missing.txt'')]) =
     Fulfilled 5 (Some (text_result ''Error: file not found'')) \<and>
   getToolParameterInfo (tm_tools example_ToolManager) (tc_name call_read_file) \<noteq> None \<and>
   (\<exists>st' m. toolStep example_env example_ToolManager call_read_file new_state = SoftFailure st' \<and>
      messages st' = messages new_state @ [m] \<and> msg_role m = Tool \<and>
      msg_tool_call_id m = Some ''read_file'' \<and>
      sublist ''Error: file not found'' (msg_content m) \<and>
      sublist ''Expected parameters'' (msg_content m)) \<and>
   callTool example_env example_ToolManager (tool_requests new_state) (tc_name call_list_files)
     (JObj []) = Fulfilled 5 (Some (text_result ''3 files found'')) \<and>
   (\<exists>st'. toolStep example_env example_ToolManager call_list_files new_state = Continue st' \<and>
      messages st' = messages new_state @ [tool_message ''3 files found'' ''list_files''])"
proof -
  have a1: "suggestParameterMapping (String_toLowerCase example_env) (tm_tools example_ToolManager) (tc_name call_read_file)
     (parseToolArguments example_env (tc_arguments call_read_file)) = Inr []"
    and a2: "fixToolArguments_json (parseToolArguments example_env (tc_arguments call_read_file)) [] =
     Inr (JObj [(''path'', JStr ''missing.txt'')])"
    and a3: "callTool example_env example_ToolManager (tool_requests new_state) (tc_name call_read_file)
     (JObj [(''path'', JStr ''missing.txt'')]) =
     Fulfilled 5 (Some (text_result ''Error: file not found''))"
    and a4: "getToolParameterInfo (tm_tools example_ToolManager) (tc_name call_read_file) \<noteq> None"
    by (simp_all add: session_eval example_eval)
  have b1: "suggestParameterMapping (String_toLowerCase example_env) (tm_tools example_ToolManager) (tc_name call_list_files)
     (parseToolArguments example_env (tc_arguments call_list_files)) = Inr []"
    and b2: "fixToolArguments_json (parseToolArguments example_env (tc_arguments call_list_files)) [] =
     Inr (JObj [])"
    and b3: "callTool example_env example_ToolManager (tool_requests new_state) (tc_name call_list_files)
     (JObj []) = Fulfilled 5 (Some (text_result ''3 files found''))"
    by (simp_all add: session_eval example_eval)
  have e1: "sublist ''Error'' ''Error: file not found''"
    and e2: "\<not> sublist ''Error'' ''3 files found''"
    by (simp_all add: str_includes_sublist [symmetric])
  have c1: "result_content (text_result ''Error: file not found'') =
              ContentArray (Block ''text'' (Some ''Error: file not found'') # [])"
    and c2: "result_content (text_result ''3 files found'') =
              ContentArray (Block ''text'' (Some ''3 files found'') # [])"
    by (simp_all add: text_result_def)
  note A = soft_failure_classification [OF a1 a2 a3]
  note B = soft_failure_classification [OF b1 b2 b3]
  from A c1 e1 obtain st' where s: "toolStep example_env example_ToolManager call_read_file new_state = SoftFailure st'"
    by blast
  with A a4 obtain tx rest m where
    r: "result_content (text_result ''Error: file not found'') =
          ContentArray (Block ''text'' (Some tx) # rest)"
    and m: "messages st' = messages new_state @ [m]" "msg_role m = Tool"
      "msg_tool_call_id m = Some (tc_name call_read_file)"
      "sublist tx (msg_content m)" "sublist ''Expected parameters'' (msg_content m)"
    by blast
  from r c1 have t: "tx = ''Error: file not found''" by simp
  have id: "tc_name call_read_file = ''read_file''" by (simp add: call_read_file_def)
  have soft: "\<exists>st' m. toolStep example_env example_ToolManager call_read_file new_state = SoftFailure st' \<and>
      messages st' = messages new_state @ [m] \<and> msg_role m = Tool \<and>
      msg_tool_call_id m = Some ''read_file'' \<and>
      sublist ''Error: file not found'' (msg_content m) \<and>
      sublist ''Expected parameters'' (msg_content m)"
    using s m t id by auto
  have no: "\<not> (\<exists>text rest. result_content (text_result ''3 files found'') =
                 ContentArray (Block ''text'' (Some text) # rest) \<and> sublist ''Error'' text)"
    using e2 by (simp add: c2)
  with B have "\<forall>st'. toolStep example_env example_ToolManager call_list_files new_state \<noteq> SoftFailure st'"
    by blast
  with B obtain st'' where "toolStep example_env example_ToolManager call_list_files new_state = Continue st''"
    "messages st'' = messages new_state @
       [tool_message (formatToolResponse (result_content (text_result ''3 files found'')))
          (tc_name call_list_files)]"
    by blast
  then have plain: "\<exists>st'. toolStep example_env example_ToolManager call_list_files new_state = Continue st' \<and>
      messages st' = messages new_state @ [tool_message ''3 files found'' ''list_files'']"
    by (simp add: text_result_def formatToolResponse_def call_list_files_def)
  from a1 a2 a3 a4 soft b3 plain show ?thesis by blast
qed

text \<open>
  C3 as stated fails: a result whose second block holds \<open>Error\<close> has it in its flattened
  text, yet it is not a soft failure and is appended as a plain result.
\<close>

theorem later_block_error_counterexample:
  "callTool example_env example_ToolManager (tool_requests new_state) (tc_name call_read_many)
     (JObj []) =
     Fulfilled 5
       (Some \<lparr>result_content =
                ContentArray [Block ''text'' (Some ''2 files read''),
                              Block ''text'' (Some ''Error: c.txt not found'')]\<rparr>) \<and>
   sublist ''Error''
     (formatToolResponse
        (ContentArray [Block ''text'' (Some ''2 files read''),
                       Block ''text'' (Some ''Error: c.txt not found'')])) \<and>
   (\<exists>st'. toolStep example_env example_ToolManager call_read_many new_state = Continue st' \<and>
      messages st' = messages new_state @
        [tool_message (''2 files read'' @ newline @ ''Error: c.txt not found'') ''read_many''])"
  by (simp add: session_eval example_eval str_includes_sublist [symmetric])

subsection \<open>Recovery without progress\<close>

lemma handleToolCalls_no_progress:
  assumes "batchContinues E T before st = Some st1"
      and "toolStep E T toolCall st1 = SoftFailure st2"
      and "ollama_chat E (model_calls st2) (messages st2) = Inr errorResponse"
      and "toolCallsOf errorResponse \<noteq> []"
      and "\<forall>call \<in> set (toolCallsOf errorResponse).
             tc_name call = tc_name toolCall \<and>
             JSON_stringify E (tc_arguments call) = JSON_stringify E (tc_arguments toolCall)"
  shows "handleToolCalls (Suc fuel) E T toolCalls (before @ toolCall # after) st =
           Some (Returns (log no_progress_notice
                   (push errorResponse (st2\<lparr>model_calls := Suc (model_calls st2)\<rparr>))))"
    and "model_calls st2 = model_calls st"
proof -
  have same: "\<not> hasNewToolCalls E toolCall (toolCallsOf errorResponse)"
    using assms(5) by (auto simp: hasNewToolCalls_def list_ex_iff)
  show "model_calls st2 = model_calls st"
    using batchContinues_model_calls [OF assms(1)] toolStep_model_calls [OF disjI2, OF assms(2)]
    by simp
  have "handleToolCalls (Suc fuel) E T toolCalls (before @ toolCall # after) st =
          handleToolCalls (Suc fuel) E T toolCalls (toolCall # after) st1"
    by (rule handleToolCalls_prefix [OF assms(1)])
  also have "\<dots> = Some (Returns (log no_progress_notice
                 (push errorResponse (st2\<lparr>model_calls := Suc (model_calls st2)\<rparr>))))"
    using assms(2,3,4) same by (simp add: handleToolCalls.simps chat_def Let_def)
  finally show "handleToolCalls (Suc fuel) E T toolCalls (before @ toolCall # after) st =
           Some (Returns (log no_progress_notice
                   (push errorResponse (st2\<lparr>model_calls := Suc (model_calls st2)\<rparr>))))" .
qed

text \<open>
  C1. Let the calls before \<open>toolCall\<close> in the batch go through, let \<open>toolCall\<close> fail
  softly, and let the model answer the diagnostic message with a non-empty batch every
  call of which has the name of the failed call and the same \<open>JSON.stringify\<close> text of
  its arguments. Then the handler returns, whatever fuel it has: it has appended the
  model's answer, written the notice, and made exactly one model request of its own, the
  recovery request; the rest of the batch is not executed and the handler is not entered
  again. When the batch is the one that opened the user turn, the turn returns with two
  model requests made, and no third.
\<close>

theorem no_progress_stops_recovery:
  assumes "batchContinues E T before st = Some st1"
      and "toolStep E T toolCall st1 = SoftFailure st2"
      and "ollama_chat E (model_calls st2) (messages st2) = Inr errorResponse"
      and "toolCallsOf errorResponse \<noteq> []"
      and "\<forall>call \<in> set (toolCallsOf errorResponse).
             tc_name call = tc_name toolCall \<and>
             JSON_stringify E (tc_arguments call) = JSON_stringify E (tc_arguments toolCall)"
  shows "(\<exists>st'. handleToolCalls (Suc fuel) E T toolCalls (before @ toolCall # after) st =
                  Some (Returns st') \<and>
                model_calls st' = Suc (model_calls st) \<and>
                messages st' = messages st2 @ [errorResponse] \<and>
                console st' = console st2 @ [no_progress_notice] \<and>
                tool_requests st' = tool_requests st2) \<and>
         (\<forall>st0 userInput response.
            ollama_chat E (model_calls st0) (messages st0 @ [user_message userInput]) = Inr response \<longrightarrow>
            toolCallsOf response = before @ toolCall # after \<longrightarrow>
            st = enter (push response
                          ((push (user_message userInput) st0)\<lparr>model_calls := Suc (model_calls st0)\<rparr>)) \<longrightarrow>
            (\<exists>st'. processUserInput (Suc fuel) E T userInput st0 = Some (Returns st') \<and>
                   model_calls st' = model_calls st0 + 2 \<and>
                   messages st' = messages st2 @ [errorResponse] \<and>
                   console st' = console st2 @ [no_progress_notice]))"
proof -
  let ?st' = "log no_progress_notice
                (push errorResponse (st2\<lparr>model_calls := Suc (model_calls st2)\<rparr>))"
  note H = handleToolCalls_no_progress [OF assms]
  have fields: "model_calls ?st' = Suc (model_calls st)"
    "messages ?st' = messages st2 @ [errorResponse]"
    "console ?st' = console st2 @ [no_progress_notice]"
    "tool_requests ?st' = tool_requests st2"
    by (simp_all add: log_def push_def H(2))
  have handler: "\<exists>st'. handleToolCalls (Suc fuel) E T toolCalls (before @ toolCall # after) st =
                  Some (Returns st') \<and>
                model_calls st' = Suc (model_calls st) \<and>
                messages st' = messages st2 @ [errorResponse] \<and>
                console st' = console st2 @ [no_progress_notice] \<and>
                tool_requests st' = tool_requests st2"
    using H(1) [of fuel toolCalls after] fields by blast
  have turn: "\<exists>st'. processUserInput (Suc fuel) E T userInput st0 = Some (Returns st') \<and>
                   model_calls st' = model_calls st0 + 2 \<and>
                   messages st' = messages st2 @ [errorResponse] \<and>
                   console st' = console st2 @ [no_progress_notice]"
    if c: "ollama_chat E (model_calls st0) (messages st0 @ [user_message userInput]) = Inr response"
      and t: "toolCallsOf response = before @ toolCall # after"
      and s: "st = enter (push response
                          ((push (user_message userInput) st0)\<lparr>model_calls := Suc (model_calls st0)\<rparr>))"
    for st0 userInput response
  proof -
    have m: "model_calls st = Suc (model_calls st0)"
      by (simp add: s enter_def log_def push_def)
    have "processUserInput (Suc fuel) E T userInput st0 =
            map_option (\<lambda>out. case out of Throws error st' \<Rightarrow> Throws error (pop st') | _ \<Rightarrow> out)
              (handleToolCalls (Suc fuel) E T (before @ toolCall # after) (before @ toolCall # after) st)"
      using c t by (simp add: processUserInput_def chat_def Let_def push_def s)
    also have "\<dots> = Some (Returns ?st')"
      using H(1) [of fuel "before @ toolCall # after" after] by simp
    finally show ?thesis using fields m by simp
  qed
  from handler turn show ?thesis by blast
qed

text \<open>
  A turn in which the model asks for \<open>list_files\<close> and \<open>read_file\<close>, the second fails
  softly, and the model asks for the same \<open>read_file\<close> call again.
\<close>

theorem no_progress_stops_recovery_witness:
  "\<exists>st st1 st2 st'.
     ollama_chat repeating_env (model_calls new_state)
       (messages new_state @ [user_message ''read missing.txt'']) =
       Inr (assistant [] [call_list_files, call_read_file]) \<and>
     toolCallsOf (assistant [] [call_list_files, call_read_file]) =
       [call_list_files] @ call_read_file # [] \<and>
     st = enter (push (assistant [] [call_list_files, call_read_file])
                  ((push (user_message ''read missing.txt'') new_state)
                     \<lparr>model_calls := Suc (model_calls new_state)\<rparr>)) \<and>
     batchContinues repeating_env example_ToolManager [call_list_files] st = Some st1 \<and>
     toolStep repeating_env example_ToolManager call_read_file st1 = SoftFailure st2 \<and>
     ollama_chat repeating_env (model_calls st2) (messages st2) =
       Inr (assistant [] [call_read_file]) \<and>
     toolCallsOf (assistant [] [call_read_file]) = [call_read_file] \<and>
     processUserInput (Suc 0) repeating_env example_ToolManager ''read missing.txt'' new_state =
       Some (Returns st') \<and>
     model_calls st' = 2 \<and>
     length (messages st') = 6 \<and>
     messages st' = messages st2 @ [assistant [] [call_read_file]] \<and>
     console st' = console st2 @ [no_progress_notice]"
proof -
  let ?first = "assistant [] [call_list_files, call_read_file]"
  let ?again = "assistant [] [call_read_file]"
  define st where "st = enter (push ?first
                  ((push (user_message ''read missing.txt'') new_state)
                     \<lparr>model_calls := Suc (model_calls new_state)\<rparr>))"
  have c0: "ollama_chat repeating_env (model_calls new_state)
       (messages new_state @ [user_message ''read missing.txt'']) = Inr ?first"
    by (simp add: session_eval example_eval)
  have t0: "toolCallsOf ?first = [call_list_files] @ call_read_file # []"
    by (simp add: toolCallsOf_def assistant_def)
  obtain st1 where b: "batchContinues repeating_env example_ToolManager [call_list_files] st = Some st1"
    and l1: "length (messages st1) = 4" and m1: "model_calls st1 = 1"
    by (simp add: st_def session_eval example_eval)
  obtain st2 where s: "toolStep repeating_env example_ToolManager call_read_file st1 = SoftFailure st2"
    and l2: "length (messages st2) = 5"
    using b by (auto simp: st_def session_eval example_eval)
  have m2: "model_calls st2 = 1"
    using toolStep_model_calls [OF disjI2, OF s] m1 by simp
  have c: "ollama_chat repeating_env (model_calls st2) (messages st2) = Inr ?again"
    by (simp add: m2 session_eval example_eval)
  have n: "toolCallsOf ?again = [call_read_file]"
    by (simp add: toolCallsOf_def assistant_def)
  have ne: "toolCallsOf ?again \<noteq> []"
    by (simp add: n)
  have same: "\<forall>call \<in> set (toolCallsOf ?again).
             tc_name call = tc_name call_read_file \<and>
             JSON_stringify repeating_env (tc_arguments call) =
               JSON_stringify repeating_env (tc_arguments call_read_file)"
    by (simp add: n)
  from no_progress_stops_recovery [OF b s c ne same, of 0 "[]" "[]"] c0 t0 st_def
  obtain st' where
    "processUserInput (Suc 0) repeating_env example_ToolManager ''read missing.txt'' new_state =
       Some (Returns st')"
    "model_calls st' = model_calls new_state + 2"
    "messages st' = messages st2 @ [?again]"
    "console st' = console st2 @ [no_progress_notice]"
    by blast
  moreover have "model_calls new_state = 0" by (simp add: new_state_def)
  ultimately show ?thesis using c0 t0 st_def b s c n l2 by auto
qed

subsection \<open>The final response\<close>

text \<open>
  C6, as the code has it. After a batch all of whose calls went through without a soft
  failure, the handler asks the model once more and appends and prints the answer. If
  the answer requests tool calls whose names are not all among the names of the batch
  just handled (at least one requested name is new), the handler is entered again on the
  new batch, inside the \<open>try\<close> of the final response; otherwise it returns, and nothing
  more is executed.
\<close>

theorem final_response_recursion:
  assumes "batchContinues E T toolCalls st = Some st1"
      and "ollama_chat E (model_calls st1) (messages st1) = Inr finalResponse"
  shows "handleToolCalls (Suc fuel) E T toolCalls toolCalls st =
           (if \<not> set (map tc_name (toolCallsOf finalResponse)) \<subseteq> set (map tc_name toolCalls)
            then map_option (catch_block ''Error getting final response:'')
                   (handleToolCalls fuel E T (toolCallsOf finalResponse) (toolCallsOf finalResponse)
                      (enter (log (''Assistant: '' @ msg_content finalResponse)
                                (push finalResponse (st1\<lparr>model_calls := Suc (model_calls st1)\<rparr>)))))
            else Some (Returns (log (''Assistant: '' @ msg_content finalResponse)
                                 (push finalResponse (st1\<lparr>model_calls := Suc (model_calls st1)\<rparr>)))))"
proof -
  have sub: "(toolCallsOf finalResponse \<noteq> [] \<and> hasNewTools toolCalls (toolCallsOf finalResponse)) =
             (\<not> set (map tc_name (toolCallsOf finalResponse)) \<subseteq> set (map tc_name toolCalls))"
    by (auto simp: hasNewTools_def list_ex_iff)
  have "handleToolCalls (Suc fuel) E T toolCalls (toolCalls @ []) st =
          handleToolCalls (Suc fuel) E T toolCalls [] st1"
    by (rule handleToolCalls_prefix [OF assms(1)])
  then show ?thesis
    using assms(2) sub by (simp add: handleToolCalls.simps chat_def Let_def)
qed

text \<open>
  A model that asks for \<open>read_file\<close> after \<open>list_files\<close>: the handler is entered again
  (one unit of fuel is not enough, two are), the new call is executed, and the lost
  connection of the recovery request is thrown on.
\<close>

theorem final_response_recursion_witness:
  "\<exists>st1 st'.
     batchContinues next_tool_env example_ToolManager [call_list_files] new_state = Some st1 \<and>
     ollama_chat next_tool_env (model_calls st1) (messages st1) =
       Inr (assistant ''Let me read it.'' [call_read_file]) \<and>
     \<not> set (map tc_name (toolCallsOf (assistant ''Let me read it.'' [call_read_file])))
         \<subseteq> set (map tc_name [call_list_files]) \<and>
     handleToolCalls (Suc 0) next_tool_env example_ToolManager [call_list_files] [call_list_files]
       new_state = None \<and>
     handleToolCalls (Suc (Suc 0)) next_tool_env example_ToolManager [call_list_files]
       [call_list_files] new_state = Some (Throws connection_refused st') \<and>
     tool_requests st' = 2"
proof -
  let ?final = "assistant ''Let me read it.'' [call_read_file]"
  obtain st1 where b: "batchContinues next_tool_env example_ToolManager [call_list_files] new_state = Some st1"
    and st1: "st1 = push (tool_message ''3 files found'' ''list_files'')
                      ((log ''Using tool: list_files'' new_state)\<lparr>tool_requests := Suc 0\<rparr>)"
    by (simp add: session_eval example_eval)
  have c: "ollama_chat next_tool_env (model_calls st1) (messages st1) = Inr ?final"
    by (simp add: st1 session_eval example_eval)
  have new: "\<not> set (map tc_name (toolCallsOf ?final)) \<subseteq> set (map tc_name [call_list_files])"
    by (simp add: session_eval)
  have nested: "\<exists>st'. handleToolCalls (Suc 0) next_tool_env example_ToolManager
          (toolCallsOf ?final) (toolCallsOf ?final)
          (enter (log (''Assistant: '' @ msg_content ?final)
                   (push ?final (st1\<lparr>model_calls := Suc (model_calls st1)\<rparr>)))) =
        Some (Throws connection_refused st') \<and> tool_requests st' = 2"
    by (simp add: st1 handleToolCalls.simps session_eval example_eval)
  have out0: "handleToolCalls 0 next_tool_env example_ToolManager
          (toolCallsOf ?final) (toolCallsOf ?final)
          (enter (log (''Assistant: '' @ msg_content ?final)
                   (push ?final (st1\<lparr>model_calls := Suc (model_calls st1)\<rparr>)))) = None"
    by (simp add: handleToolCalls.simps)
  have r0: "handleToolCalls (Suc 0) next_tool_env example_ToolManager [call_list_files]
              [call_list_files] new_state = None"
    using final_response_recursion [OF b c, of 0] new out0 by simp
  from nested obtain st' where
    n: "handleToolCalls (Suc 0) next_tool_env example_ToolManager
          (toolCallsOf ?final) (toolCallsOf ?final)
          (enter (log (''Assistant: '' @ msg_content ?final)
                   (push ?final (st1\<lparr>model_calls := Suc (model_calls st1)\<rparr>)))) =
        Some (Throws connection_refused st')"
    and t: "tool_requests st' = 2"
    by blast
  have r1: "handleToolCalls (Suc (Suc 0)) next_tool_env example_ToolManager [call_list_files]
              [call_list_files] new_state = Some (Throws connection_refused st')"
    using final_response_recursion [OF b c, of "Suc 0"] new n
    by (simp add: catch_block_def isConnectionRefused_def connection_refused_def)
  from b c new r0 r1 t show ?thesis by blast
qed

text \<open>
  C6 as stated fails: when the final response asks for the tool of the batch again, the
  requested names are not a strict subset of the names tried (the two sets are equal),
  yet the handler returns without entering the new batch.
\<close>

theorem same_tool_no_recursion_counterexample:
  "\<not> set (map tc_name (toolCallsOf (assistant ''Here are the files.'' [call_list_files])))
       \<subset> set (map tc_name [call_list_files]) \<and>
   (\<exists>st'. handleToolCalls (Suc 0) same_tool_env example_ToolManager [call_list_files]
            [call_list_files] new_state = Some (Returns st') \<and>
          last (messages st') = assistant ''Here are the files.'' [call_list_files] \<and>
          model_calls st' = 1 \<and> tool_requests st' = 1)"
  by (simp add: handleToolCalls.simps session_eval example_eval)

section \<open>Rolling back a failed turn\<close>

text \<open>
  When the first model request of a turn fails, the user message is popped and the
  transcript is what it was before the turn.
\<close>

lemma processUserInput_first_request_rollback:
  assumes "ollama_chat E (model_calls st) (messages st @ [user_message userInput]) = Inl error"
  shows "\<exists>st'. processUserInput fuel E T userInput st = Some (Throws error st') \<and>
               messages st' = messages st"
  using assms by (simp add: processUserInput_def chat_def push_def pop_def)

text \<open>
  C2 at a later request: the model asks for \<open>list_files\<close>, the tool answers, and the
  request for the final response is refused. The \<open>catch\<close> of \<open>processUserInput\<close> pops
  one message, the tool result, and the transcript keeps the user message and the
  assistant message: three messages where there was one.
\<close>

theorem later_request_refused_keeps_user_turn:
  "\<exists>st'. processUserInput (Suc 0) dropped_env example_ToolManager ''hello'' new_state =
           Some (Throws connection_refused st') \<and>
         messages st' = [system_message, user_message ''hello'', assistant [] [call_list_files]] \<and>
         length (messages new_state) = 1 \<and> length (messages st') = 3"
  by (simp add: processUserInput_def handleToolCalls.simps session_eval example_eval)

end
